theory Spec2Isabelle
  imports Main "HOL-Library.Sublist" "HOL-Library.AList" "HOL-Library.Word"
begin

section \<open>Data model of package mlabtest\<close>

text \<open>
  A Go \<open>string\<close> and a \<open>[]byte\<close> are byte sequences: \<^typ>\<open>string\<close>.
  \<open>net.IP\<close> is a byte slice; the value \<open>nil\<close> of a returned \<open>net.IP\<close> is \<open>None\<close>.
  A Go \<open>error\<close> is a value of the datatype \<open>error\<close>; a \<open>nil\<close> error is \<open>None\<close> or the
  \<open>Inr\<close> side of a sum.
\<close>

type_synonym IP = "8 word list"

datatype error =
    Errorf string      \<comment> \<open>built by \<open>fmt.Errorf\<close>: the formatted message\<close>
  | ExecError string   \<comment> \<open>returned by package \<open>os/exec\<close> or \<open>os\<close>\<close>
  | JSONError string   \<comment> \<open>returned by the JSON decoder\<close>
  | ReadError string   \<comment> \<open>returned by \<open>ioutil.ReadFile\<close> or \<open>io.Copy\<close>\<close>
  | EOF                \<comment> \<open>\<open>io.EOF\<close>, the end of a stream\<close>
  | ErrClosedPipe      \<comment> \<open>\<open>io.ErrClosedPipe\<close>\<close>

datatype panic =
    NilPointerDereference  \<comment> \<open>runtime error: invalid memory address or nil pointer dereference\<close>
  | CloseOfClosedChannel   \<comment> \<open>panic: close of closed channel\<close>

text \<open>
  How a call ends: it returns, it panics, or it stops the test with \<open>tb.Fatal\<close>. The
  state that the call leaves behind is returned beside it in every case.
\<close>

datatype 'a exit = Return 'a | Panic panic | Fatal string

text \<open>
  A Go map is an association list with distinct keys: lookup is \<^const>\<open>map_of\<close>, assignment
  \<open>m[k] = v\<close> is \<^const>\<open>AList.update\<close>, \<open>len(m)\<close> is the length. Go leaves the order
  in which \<open>range\<close> visits a map unspecified and varies it from one loop to the next; a
  \<open>range\<close> loop takes a number \<open>pick\<close> chosen by the runtime and starts at that entry.
  The address stored for an interface is a \<open>net.IP\<close>, which may be \<open>nil\<close>: \<open>None\<close>.
\<close>

record NetConfig =
  Interfaces :: "(string \<times> IP option) list"
  ExposedPorts :: "(int \<times> int) list"

datatype chan = Open | Closed

record blockingReader =
  br_once :: bool     \<comment> \<open>field \<open>once\<close>: the \<open>sync.Once\<close> has run its function\<close>
  br_c :: chan        \<comment> \<open>field \<open>c\<close>\<close>

datatype logger = TBLog | Println

text \<open>The fields of \<open>exec.Cmd\<close> that the package reads or that decide what its methods do.\<close>

record Cmd =
  Args :: "string list"
  Process :: "nat option"     \<comment> \<open>\<open>*os.Process\<close>, \<open>nil\<close> until the command has been started\<close>
  cmd_Stdin :: bool           \<comment> \<open>\<open>cmd.Stdin\<close> has been set\<close>
  cmd_Stdout :: bool          \<comment> \<open>\<open>cmd.Stdout\<close> has been set (by \<open>StdoutPipe\<close>)\<close>
  cmd_Stderr :: bool

record MLab =
  cmd :: Cmd
  idfile :: string
  lab_id :: string                       \<comment> \<open>field \<open>id\<close>\<close>
  closechan :: chan
  toBeClosed :: "blockingReader list"
  netConfig :: "NetConfig option"
  lab_t :: bool                          \<comment> \<open>field \<open>t\<close>: a testing object is attached\<close>
  Logger :: "logger option"
  Stdin :: bool                          \<comment> \<open>the caller supplied a reader\<close>
  Stdout :: bool
  Stderr :: bool

text \<open>
  What lies outside the handle: the file system, the lines handed to the logger, the number
  of \<open>mlab inspect\<close> commands run so far, the kill signals sent to the lab process,
  whether the goroutine that waits for the process (started by \<open>doStart\<close>) is still
  waiting, whether the lab process has exited, from where \<open>os/exec\<close> copies the standard
  input of the process (the caller's reader, or the blocking reader registered at that place
  of \<open>toBeClosed\<close>), and whether the copy from the caller's reader is over: the reader has
  come to its end or failed, or a write to the dead process failed; from a reader that is
  an \<open>*os.File\<close> no copy is made, and then it is over from the beginning.
\<close>

datatype monitor_state = NotStarted | Waiting | Done

datatype stdin_copy = NoCopy | FromCaller | FromGate nat

record world =
  files :: "string \<rightharpoonup> string"
  logged :: "string list"
  inspections :: nat
  kills :: nat
  monitor :: monitor_state
  exited :: bool
  stdin_copy :: stdin_copy
  stdin_done :: bool

section \<open>Network configuration\<close>

subsection \<open>NetConfig.IP\<close>

definition range_first :: "nat \<Rightarrow> ('k \<times> 'v) list \<Rightarrow> 'v option" where
  "range_first pick m = (if m = [] then None else Some (snd (m ! (pick mod length m))))"

definition NetConfig_IP :: "nat \<Rightarrow> NetConfig option \<Rightarrow> IP option" where
  "NetConfig_IP pick n =
     (case n of
        None \<Rightarrow> None
      | Some conf \<Rightarrow>
          if length (Interfaces conf) = 0 then None
          else (case map_of (Interfaces conf) ''eth0'' of
                  Some ip \<Rightarrow> ip
                | None \<Rightarrow>
                    (case range_first pick (Interfaces conf) of
                       Some ip \<Rightarrow> ip
                     | None \<Rightarrow> None)))"

subsection \<open>NeedForwarding\<close>

text \<open>The argument is the value of \<open>os.Getenv("MLAB_HOST")\<close>.\<close>

definition NeedForwarding :: "string \<Rightarrow> bool" where
  "NeedForwarding mlab_host = (\<not> prefix ''unix:'' mlab_host)"

subsection \<open>getNetConfig and NetConfig\<close>

datatype ifc = Ifc (Address: string) (IFName: string)

datatype portmap = PortMap (Internal: int) (External: int)

text \<open>
  One run of \<open>mlab inspect\<close>, seen through \<open>CombinedOutput\<close> and the JSON decoder: the
  command fails, or its output is read as two documents, each of which decodes or not.
  \<open>inspect k i\<close> is the outcome of the \<open>k\<close>-th run, for the container id \<open>i\<close>.
  \<open>ParseIP\<close> stands for \<open>net.ParseIP\<close>.
\<close>

datatype inspect_outcome =
    CmdFailed error
  | CmdOutput "error + ifc list" "error + portmap list"

fun parse_interfaces ::
  "(string \<Rightarrow> IP option) \<Rightarrow> ifc list \<Rightarrow> (string \<times> IP option) list
     \<Rightarrow> error + (string \<times> IP option) list"
where
  "parse_interfaces ParseIP [] interfaces = Inr interfaces"
| "parse_interfaces ParseIP (i # ifcs) interfaces =
     (case ParseIP (Address i) of
        None \<Rightarrow> Inl (Errorf (''error parsing address ('' @ Address i @ '') of '' @ IFName i))
      | Some ip \<Rightarrow> parse_interfaces ParseIP ifcs (AList.update (IFName i) (Some ip) interfaces))"

fun collect_ports :: "portmap list \<Rightarrow> (int \<times> int) list \<Rightarrow> (int \<times> int) list" where
  "collect_ports [] ports = ports"
| "collect_ports (p # portList) ports =
     collect_ports portList (AList.update (Internal p) (External p) ports)"

definition MLab_getNetConfig ::
  "(string \<Rightarrow> IP option) \<Rightarrow> (nat \<Rightarrow> string \<Rightarrow> inspect_outcome) \<Rightarrow> MLab \<Rightarrow> world
     \<Rightarrow> (error + NetConfig) \<times> world"
where
  "MLab_getNetConfig ParseIP inspect m w =
     (let w' = w\<lparr>inspections := Suc (inspections w)\<rparr> in
      case inspect (inspections w) (lab_id m) of
        CmdFailed err \<Rightarrow> (Inl err, w')
      | CmdOutput doc1 doc2 \<Rightarrow>
          (case doc1 of
             Inl err \<Rightarrow> (Inl err, w')
           | Inr ifcs \<Rightarrow>
               (case parse_interfaces ParseIP ifcs [] of
                  Inl err \<Rightarrow> (Inl err, w')
                | Inr interfaces \<Rightarrow>
                    (case doc2 of
                       Inl err \<Rightarrow> (Inl err, w')
                     | Inr portList \<Rightarrow>
                         (Inr \<lparr>Interfaces = interfaces,
                               ExposedPorts = collect_ports portList []\<rparr>, w')))))"

definition MLab_NetConfig ::
  "(string \<Rightarrow> IP option) \<Rightarrow> (nat \<Rightarrow> string \<Rightarrow> inspect_outcome) \<Rightarrow> MLab \<Rightarrow> world
     \<Rightarrow> (error + NetConfig) \<times> MLab \<times> world"
where
  "MLab_NetConfig ParseIP inspect m w =
     (case netConfig m of
        Some nc \<Rightarrow> (Inr nc, m, w)
      | None \<Rightarrow>
          (case MLab_getNetConfig ParseIP inspect m w of
             (Inr nc, w') \<Rightarrow> (Inr nc, m\<lparr>netConfig := Some nc\<rparr>, w')
           | (Inl err, w') \<Rightarrow> (Inl err, m, w')))"

subsection \<open>GetAddressPort\<close>

text \<open>
  \<open>net.IPv4\<close> builds the 16-byte form of an IPv4 address, which is what
  \<open>net.ParseIP("127.0.0.1")\<close> returns.
\<close>

definition IPv4 :: "8 word \<Rightarrow> 8 word \<Rightarrow> 8 word \<Rightarrow> 8 word \<Rightarrow> IP" where
  "IPv4 a b c d = [0, 0, 0, 0, 0, 0, 0, 0, 0, 0, 0xff, 0xff, a, b, c, d]"

definition loopbackAddress :: IP where
  "loopbackAddress = IPv4 127 0 0 1"

text \<open>The verb \<open>%d\<close> of package \<open>fmt\<close> on an \<open>int\<close>: decimal digits, with a minus sign.\<close>

definition digit_char :: "nat \<Rightarrow> char" where
  "digit_char d = ''0123456789'' ! d"

function digits10 :: "nat \<Rightarrow> string" where
  "digits10 n = (if n < 10 then [digit_char n] else digits10 (n div 10) @ [digit_char (n mod 10)])"
  by pat_completeness auto
termination
  by (relation "measure id") auto

declare digits10.simps [simp del]

definition fmt_d :: "int \<Rightarrow> string" where
  "fmt_d i = (if i < 0 then CHR ''-'' # digits10 (nat (- i)) else digits10 (nat i))"

definition MLab_GetAddressPort ::
  "(string \<Rightarrow> IP option) \<Rightarrow> (nat \<Rightarrow> string \<Rightarrow> inspect_outcome) \<Rightarrow> string \<Rightarrow> nat
     \<Rightarrow> MLab \<Rightarrow> world \<Rightarrow> int \<Rightarrow> (error + IP \<times> int) \<times> MLab \<times> world"
where
  "MLab_GetAddressPort ParseIP inspect mlab_host pick m w port =
     (case MLab_NetConfig ParseIP inspect m w of
        (Inl err, m', w') \<Rightarrow> (Inl err, m', w')
      | (Inr conf, m', w') \<Rightarrow>
          (case (if \<not> NeedForwarding mlab_host then NetConfig_IP pick (Some conf) else None) of
             Some ip \<Rightarrow> (Inr (ip, port), m', w')
           | None \<Rightarrow>
               (case map_of (ExposedPorts conf) port of
                  Some fport \<Rightarrow> (Inr (loopbackAddress, fport), m', w')
                | None \<Rightarrow>
                    (Inl (Errorf (''could not find port mapping for '' @ fmt_d port)), m', w'))))"

section \<open>The blocking reader\<close>

definition newBlockingReader :: blockingReader where
  "newBlockingReader = \<lparr>br_once = False, br_c = Open\<rparr>"

text \<open>The builtin \<open>close\<close>: closing a closed channel panics.\<close>

definition close_chan :: "chan \<Rightarrow> panic + chan" where
  "close_chan ch = (case ch of Open \<Rightarrow> Inr Closed | Closed \<Rightarrow> Inl CloseOfClosedChannel)"

text \<open>
  \<open>Read\<close> receives from the channel: on an open channel, on which nothing is ever sent,
  the receive cannot proceed; on a closed one it proceeds at once and \<open>Read\<close> returns
  \<open>0, io.EOF\<close>.
\<close>

datatype read_result = ReadBlocks | ReadReturns nat "error option"

definition blockingReader_Read :: "blockingReader \<Rightarrow> read_result" where
  "blockingReader_Read b = (case br_c b of Open \<Rightarrow> ReadBlocks | Closed \<Rightarrow> ReadReturns 0 (Some EOF))"

text \<open>\<open>once.Do\<close> runs its function on the first call only, under the lock of the \<open>sync.Once\<close>.\<close>

definition blockingReader_Close :: "blockingReader \<Rightarrow> panic + blockingReader \<times> error option" where
  "blockingReader_Close b =
     (if br_once b then Inr (b, None)
      else (case close_chan (br_c b) of
              Inl p \<Rightarrow> Inl p
            | Inr ch \<Rightarrow> Inr (b\<lparr>br_once := True, br_c := ch\<rparr>, None)))"

text \<open>
  Goroutines sharing one reader: a schedule is the order in which their operations on the
  reader take effect. A blocked \<open>Read\<close> stays where it is and is tried again later, which is
  a later \<open>OpRead\<close> of the schedule.
\<close>

datatype gate_op = OpRead | OpClose

datatype gate_result = DidRead read_result | DidClose "error option"

fun run_gate :: "gate_op list \<Rightarrow> blockingReader \<Rightarrow> panic + gate_result list \<times> blockingReader" where
  "run_gate [] b = Inr ([], b)"
| "run_gate (OpRead # ops) b =
     (case run_gate ops b of
        Inl p \<Rightarrow> Inl p
      | Inr (rs, b') \<Rightarrow> Inr (DidRead (blockingReader_Read b) # rs, b'))"
| "run_gate (OpClose # ops) b =
     (case blockingReader_Close b of
        Inl p \<Rightarrow> Inl p
      | Inr (b1, err) \<Rightarrow>
          (case run_gate ops b1 of
             Inl p \<Rightarrow> Inl p
           | Inr (rs, b') \<Rightarrow> Inr (DidClose err # rs, b')))"

section \<open>The line logger\<close>

text \<open>
  \<open>NewLineLogger\<close> returns the write end of a pipe; a goroutine scans the read end with a
  \<open>bufio.Scanner\<close> (split function \<open>bufio.ScanLines\<close>) and calls \<open>f\<close> on each token.
  A \<open>Write\<close> on the pipe returns once the scanner has read its bytes. The state is what the
  scanner holds: the bytes read and not yet given out, the number of empty reads in a row,
  the lines passed to \<open>f\<close> so far, and whether the goroutine has left its loop and closed
  both ends. The scanner's limit on the length of a token (64 KiB) is not represented.
\<close>

record lineLogger =
  ll_buf :: string
  ll_empties :: nat
  ll_lines :: "string list"
  ll_done :: bool

definition NewLineLogger :: lineLogger where
  "NewLineLogger = \<lparr>ll_buf = [], ll_empties = 0, ll_lines = [], ll_done = False\<rparr>"

definition dropCR :: "string \<Rightarrow> string" where
  "dropCR data = (if data \<noteq> [] \<and> last data = CHR 0x0D then butlast data else data)"

text \<open>
  \<open>scan_lines held p\<close>: the tokens that \<open>ScanLines\<close> finds, not at the end of the input, in
  the bytes \<open>held\<close> (which contain no newline) followed by \<open>p\<close>, and the bytes left after
  the last newline.
\<close>

fun scan_lines :: "string \<Rightarrow> string \<Rightarrow> string list \<times> string" where
  "scan_lines held [] = ([], held)"
| "scan_lines held (b # p) =
     (if b = CHR 0x0A
      then (case scan_lines [] p of (toks, rest) \<Rightarrow> (dropCR held # toks, rest))
      else scan_lines (held @ [b]) p)"

text \<open>At the end of the input \<open>ScanLines\<close> gives out what is left, when it is not empty.\<close>

definition final_token :: "string \<Rightarrow> string list" where
  "final_token data = (if data = [] then [] else [dropCR data])"

definition maxConsecutiveEmptyReads :: nat where
  "maxConsecutiveEmptyReads = 100"

definition lineLogger_Write :: "lineLogger \<Rightarrow> string \<Rightarrow> lineLogger \<times> nat \<times> error option" where
  "lineLogger_Write l p =
     (if ll_done l then (l, 0, Some ErrClosedPipe)
      else if p = [] then
        (if Suc (ll_empties l) > maxConsecutiveEmptyReads
         then (l\<lparr>ll_lines := ll_lines l @ final_token (ll_buf l), ll_buf := [],
                  ll_done := True\<rparr>, 0, None)
         else (l\<lparr>ll_empties := Suc (ll_empties l)\<rparr>, 0, None))
      else (case scan_lines (ll_buf l) p of
              (toks, rest) \<Rightarrow>
                (l\<lparr>ll_buf := rest, ll_lines := ll_lines l @ toks, ll_empties := 0\<rparr>,
                 length p, None)))"

definition lineLogger_Close :: "lineLogger \<Rightarrow> lineLogger" where
  "lineLogger_Close l =
     (if ll_done l then l
      else l\<lparr>ll_lines := ll_lines l @ final_token (ll_buf l), ll_buf := [], ll_done := True\<rparr>)"

fun writes :: "string list \<Rightarrow> lineLogger \<Rightarrow> lineLogger" where
  "writes [] l = l"
| "writes (p # ps) l = writes ps (fst (lineLogger_Write l p))"

section \<open>The lab handle\<close>

subsection \<open>New, Log, IsClosed\<close>

text \<open>
  \<open>tempfile\<close> is what \<open>ioutil.TempFile("", "tmlab.")\<close> returns: an error, or the name of
  the file it has just created, empty.
\<close>

definition New ::
  "bool \<Rightarrow> string \<Rightarrow> string list \<Rightarrow> error + string \<Rightarrow> world \<Rightarrow> (error + MLab) exit \<times> world"
where
  "New tb script args tempfile w =
     (case tempfile of
        Inl err \<Rightarrow>
          (if tb then (Fatal ''mlabtest::New failed creating temp file:'', w)
           else (Return (Inl err), w))
      | Inr idfname \<Rightarrow>
          (Return (Inr
             \<lparr>cmd = \<lparr>Args = ''mlab'' # [''run'', ''--wait'', ''--id'', idfname, script] @ args,
                     Process = None, cmd_Stdin = False, cmd_Stdout = False,
                     cmd_Stderr = False\<rparr>,
              idfile = idfname, lab_id = [], closechan = Open, toBeClosed = [],
              netConfig = None, lab_t = tb,
              Logger = (if tb then Some TBLog else None),
              Stdin = False, Stdout = False, Stderr = False\<rparr>),
           w\<lparr>files := (files w)(idfname \<mapsto> [])\<rparr>))"

definition MLab_Log :: "MLab \<Rightarrow> string \<Rightarrow> world \<Rightarrow> world" where
  "MLab_Log m line w =
     (case Logger m of None \<Rightarrow> w | Some f \<Rightarrow> w\<lparr>logged := logged w @ [line]\<rparr>)"

definition MLab_IsClosed :: "MLab \<Rightarrow> bool" where
  "MLab_IsClosed m = (case closechan m of Closed \<Rightarrow> True | Open \<Rightarrow> False)"

subsection \<open>Close\<close>

text \<open>
  \<open>Kill\<close> is a method of \<open>*os.Process\<close> that reads the fields of its receiver: on the
  \<open>nil\<close> pointer that \<open>cmd.Process\<close> holds before the command is started, it panics.
  Its returned error is dropped by \<open>Close\<close>.
\<close>

definition Process_Kill :: "nat option \<Rightarrow> world \<Rightarrow> panic + world" where
  "Process_Kill p w =
     (case p of
        None \<Rightarrow> Inl NilPointerDereference
      | Some pid \<Rightarrow> Inr (w\<lparr>kills := Suc (kills w)\<rparr>))"

fun close_all :: "blockingReader list \<Rightarrow> panic + blockingReader list" where
  "close_all [] = Inr []"
| "close_all (b # bs) =
     (case blockingReader_Close b of
        Inl p \<Rightarrow> Inl p
      | Inr (b', err) \<Rightarrow>
          (case close_all bs of Inl p \<Rightarrow> Inl p | Inr bs' \<Rightarrow> Inr (b' # bs')))"

text \<open>\<open>os.Remove\<close> deletes the file; its error (the file is not there) is dropped.\<close>

definition os_Remove :: "string \<Rightarrow> world \<Rightarrow> world" where
  "os_Remove name w = w\<lparr>files := (files w)(name := None)\<rparr>"

definition MLab_Close :: "MLab \<Rightarrow> world \<Rightarrow> error option exit \<times> MLab \<times> world" where
  "MLab_Close m w =
     (let w1 = MLab_Log m ''MLab:Close'' w;
          w2 = (if \<not> MLab_IsClosed m then MLab_Log m ''Actually killing process'' w1 else w1)
      in case (if \<not> MLab_IsClosed m then Process_Kill (Process (cmd m)) w2 else Inr w2) of
           Inl p \<Rightarrow> (Panic p, m, w2)
         | Inr w3 \<Rightarrow>
             (case close_all (toBeClosed m) of
                Inl p \<Rightarrow> (Panic p, m, w3)
              | Inr bs \<Rightarrow> (Return None, m\<lparr>toBeClosed := bs\<rparr>, os_Remove (idfile m) w3)))"

subsection \<open>Start\<close>

text \<open>
  What one call of \<open>doStart\<close> meets outside the program: whether \<open>os.Pipe\<close> fails inside
  \<open>StdoutPipe\<close>, whether the process is spawned (and its pid), what the lab then writes to
  the id file, whether copying its output fails, whether the process exits before the
  timer of 50 ms fires, and how \<open>ProcessState.String\<close> describes the exit.
\<close>

record start_env =
  pipe_result :: "error option"
  spawn_result :: "error + nat"
  lab_writes :: "string option"
  copy_result :: "error option"
  exits_early :: bool
  exit_state :: string

definition Cmd_StdoutPipe :: "error option \<Rightarrow> Cmd \<Rightarrow> error + Cmd" where
  "Cmd_StdoutPipe os_pipe cm =
     (if cmd_Stdout cm then Inl (ExecError ''exec: Stdout already set'')
      else if Process cm \<noteq> None then Inl (ExecError ''exec: StdoutPipe after process started'')
      else (case os_pipe of Some err \<Rightarrow> Inl err | None \<Rightarrow> Inr (cm\<lparr>cmd_Stdout := True\<rparr>)))"

definition Cmd_Start :: "error + nat \<Rightarrow> Cmd \<Rightarrow> error + Cmd" where
  "Cmd_Start spawn cm =
     (if Process cm \<noteq> None then Inl (ExecError ''exec: already started'')
      else (case spawn of Inl err \<Rightarrow> Inl err | Inr pid \<Rightarrow> Inr (cm\<lparr>Process := Some pid\<rparr>)))"

text \<open>
  The goroutine \<open>m.cmd.Wait(); close(m.closechan)\<close>: when \<open>Wait\<close> returns, the goroutine
  closes the channel and ends; \<open>monitor_fires\<close> is that step.
\<close>

definition monitor_fires :: "MLab \<Rightarrow> world \<Rightarrow> unit exit \<times> MLab \<times> world" where
  "monitor_fires m w =
     (case monitor w of
        Waiting \<Rightarrow>
          (case close_chan (closechan m) of
             Inl p \<Rightarrow> (Panic p, m, w\<lparr>monitor := Done\<rparr>)
           | Inr ch \<Rightarrow> (Return (), m\<lparr>closechan := ch\<rparr>, w\<lparr>monitor := Done\<rparr>))
      | NotStarted \<Rightarrow> (Return (), m, w)
      | Done \<Rightarrow> (Return (), m, w))"

text \<open>
  \<open>exec.Cmd.Wait\<close> returns once the process has exited and the copying that \<open>os/exec\<close>
  does for it has ended. When the caller supplied no \<open>Stdin\<close>, \<open>doStart\<close> sets \<open>cmd.Stdin\<close>
  to the blocking reader, which is not a file, so there is a copy from that reader to the
  process, and it ends when a \<open>Read\<close> of the reader returns: when it has been closed.
  \<open>Wait_returns\<close> is the goroutine going on if \<open>Wait\<close> can return, and staying where it is
  if not.
\<close>

definition Wait_can_return :: "MLab \<Rightarrow> world \<Rightarrow> bool" where
  "Wait_can_return m w =
     (exited w \<and>
      (case stdin_copy w of
         NoCopy \<Rightarrow> True
       | FromCaller \<Rightarrow> stdin_done w
       | FromGate i \<Rightarrow> i < length (toBeClosed m) \<and> br_c (toBeClosed m ! i) = Closed))"

definition Wait_returns :: "MLab \<Rightarrow> world \<Rightarrow> unit exit \<times> MLab \<times> world" where
  "Wait_returns m w = (if Wait_can_return m w then monitor_fires m w else (Return (), m, w))"

text \<open>
  \<open>bytes.TrimSpace\<close> cuts off the leading and the trailing white space of a byte slice read
  as UTF-8: \<open>utf8.DecodeRune\<close> and \<open>utf8.DecodeLastRune\<close> give the first and the last rune
  (a number) with its width in bytes, \<open>RuneError\<close> with width 1 for bytes that are not
  valid UTF-8, and \<open>unicode.IsSpace\<close> says which runes are white space.
\<close>

definition RuneError :: nat where
  "RuneError = 0xFFFD"

fun DecodeRune :: "string \<Rightarrow> nat \<times> nat" where
  "DecodeRune [] = (RuneError, 0)"
| "DecodeRune (c0 # rest) =
     (let p0 = (of_char c0 :: nat) in
      if p0 < 0x80 then (p0, 1)
      else if p0 < 0xC2 \<or> 0xF4 < p0 then (RuneError, 1)
      else
        (let sz = (if p0 < 0xE0 then 2 else if p0 < 0xF0 then 3 else (4::nat));
             lo = (if p0 = 0xE0 then 0xA0 else if p0 = 0xF0 then 0x90 else (0x80::nat));
             hi = (if p0 = 0xED then 0x9F else if p0 = 0xF4 then 0x8F else (0xBF::nat))
         in if Suc (length rest) < sz then (RuneError, 1)
            else
              (case map of_char (take 3 rest) of
                 [] \<Rightarrow> (RuneError, 1)
               | b1 # tl1 \<Rightarrow>
                   if b1 < lo \<or> hi < b1 then (RuneError, 1)
                   else if sz \<le> 2 then ((p0 mod 32) * 64 + b1 mod 64, 2)
                   else
                     (case tl1 of
                        [] \<Rightarrow> (RuneError, 1)
                      | b2 # tl2 \<Rightarrow>
                          if b2 < 0x80 \<or> 0xBF < b2 then (RuneError, 1)
                          else if sz \<le> 3
                          then ((p0 mod 16) * 4096 + (b1 mod 64) * 64 + b2 mod 64, 3)
                          else
                            (case tl2 of
                               [] \<Rightarrow> (RuneError, 1)
                             | b3 # tl3 \<Rightarrow>
                                 if b3 < 0x80 \<or> 0xBF < b3 then (RuneError, 1)
                                 else ((p0 mod 8) * 262144 + (b1 mod 64) * 4096
                                       + (b2 mod 64) * 64 + b3 mod 64, 4))))))"

definition RuneStart :: "char \<Rightarrow> bool" where
  "RuneStart b = ((of_char b :: nat) div 64 \<noteq> 2)"

text \<open>
  \<open>DecodeLastRune\<close> looks for the start of the last rune among the three bytes before the
  last one, and falls back to one byte earlier (or to the beginning: the subtraction of
  natural numbers stops at 0) when none of them starts a rune.
\<close>

definition DecodeLastRune :: "string \<Rightarrow> nat \<times> nat" where
  "DecodeLastRune p =
     (let n = length p in
      if n = 0 then (RuneError, 0)
      else if (of_char (last p) :: nat) < 0x80 then (of_char (last p), 1)
      else
        (let start =
               (if 2 \<le> n \<and> RuneStart (p ! (n - 2)) then n - 2
                else if 3 \<le> n \<and> RuneStart (p ! (n - 3)) then n - 3
                else if 4 \<le> n \<and> RuneStart (p ! (n - 4)) then n - 4
                else n - 5)
         in case DecodeRune (drop start p) of
              (r, width) \<Rightarrow> if start + width \<noteq> n then (RuneError, 1) else (r, width)))"

definition IsSpace :: "nat \<Rightarrow> bool" where
  "IsSpace r =
     (if r \<le> 0xFF
      then r = 0x09 \<or> r = 0x0A \<or> r = 0x0B \<or> r = 0x0C \<or> r = 0x0D \<or> r = 0x20
           \<or> r = 0x85 \<or> r = 0xA0
      else r = 0x1680 \<or> (0x2000 \<le> r \<and> r \<le> 0x200A) \<or> r = 0x2028 \<or> r = 0x2029
           \<or> r = 0x202F \<or> r = 0x205F \<or> r = 0x3000)"

text \<open>
  \<open>TrimLeft\<close> drops white-space runes from the front; \<open>trim_reversed\<close> works on the
  reversed slice and drops them from the end, one last rune at a time.
\<close>

fun TrimLeft :: "string \<Rightarrow> string" where
  "TrimLeft [] = []"
| "TrimLeft (b # s) =
     (case DecodeRune (b # s) of
        (r, width) \<Rightarrow> if IsSpace r then TrimLeft (drop (width - 1) s) else b # s)"

fun trim_reversed :: "string \<Rightarrow> string" where
  "trim_reversed [] = []"
| "trim_reversed (b # s) =
     (case DecodeLastRune (rev (b # s)) of
        (r, width) \<Rightarrow> if IsSpace r then trim_reversed (drop (width - 1) s) else b # s)"

definition TrimRight :: "string \<Rightarrow> string" where
  "TrimRight s = rev (trim_reversed (rev s))"

definition TrimSpace :: "string \<Rightarrow> string" where
  "TrimSpace s = TrimRight (TrimLeft s)"

text \<open>The three stages of \<open>doStart\<close>: connecting the streams, launching, waiting.\<close>

definition wire_stdio :: "MLab \<Rightarrow> MLab" where
  "wire_stdio m =
     (let m1 = (if Stdin m then m\<lparr>cmd := (cmd m)\<lparr>cmd_Stdin := True\<rparr>\<rparr>
                else m\<lparr>cmd := (cmd m)\<lparr>cmd_Stdin := True\<rparr>,
                       toBeClosed := toBeClosed m @ [newBlockingReader]\<rparr>)
      in if Stderr m1 then m1\<lparr>cmd := (cmd m1)\<lparr>cmd_Stderr := True\<rparr>\<rparr> else m1)"

text \<open>
  From \<open>io.Copy\<close> on: the copy, the \<open>select\<close> between the channel and the timer, and the
  reading of the id file.
\<close>

definition await_ready :: "start_env \<Rightarrow> MLab \<Rightarrow> world \<Rightarrow> error option exit \<times> MLab \<times> world" where
  "await_ready env m w =
     (case copy_result env of
        Some err \<Rightarrow> (Return (Some err), m, w)
      | None \<Rightarrow>
          if MLab_IsClosed m
          then (Return (Some (Errorf (''mlab exited: '' @ exit_state env))), m, w)
          else (case files w (idfile m) of
                  None \<Rightarrow> (Return (Some (ReadError (idfile m))), m, w)
                | Some content \<Rightarrow> (Return None, m\<lparr>lab_id := TrimSpace content\<rparr>, w)))"

definition MLab_doStart :: "start_env \<Rightarrow> MLab \<Rightarrow> world \<Rightarrow> error option exit \<times> MLab \<times> world" where
  "MLab_doStart env m w =
     (let m2 = wire_stdio m in
      case Cmd_StdoutPipe (pipe_result env) (cmd m2) of
        Inl err \<Rightarrow> (Return (Some err), m2, w)
      | Inr cm \<Rightarrow>
          (case Cmd_Start (spawn_result env) cm of
             Inl err \<Rightarrow>
               (case close_chan (closechan m2) of
                  Inl p \<Rightarrow> (Panic p, m2\<lparr>cmd := cm\<rparr>, w)
                | Inr ch \<Rightarrow> (Return (Some err), m2\<lparr>cmd := cm, closechan := ch\<rparr>, w))
           | Inr cm' \<Rightarrow>
               (let m3 = m2\<lparr>cmd := cm'\<rparr>;
                    w1 = w\<lparr>monitor := Waiting, exited := exits_early env,
                           stdin_copy := (if Stdin m then FromCaller
                                          else FromGate (length (toBeClosed m))),
                           files := (case lab_writes env of
                                       None \<Rightarrow> files w
                                     | Some s \<Rightarrow> (files w)(idfile m \<mapsto> s))\<rparr>
                in case Wait_returns m3 w1 of
                     (Return u, m4, w2) \<Rightarrow> await_ready env m4 w2
                   | (Panic p, m4, w2) \<Rightarrow> (Panic p, m4, w2)
                   | (Fatal msg, m4, w2) \<Rightarrow> (Fatal msg, m4, w2))))"

definition MLab_Start :: "start_env \<Rightarrow> MLab \<Rightarrow> world \<Rightarrow> error option exit \<times> MLab \<times> world" where
  "MLab_Start env m w =
     (case MLab_doStart env m w of
        (Return (Some err), m', w') \<Rightarrow>
          (if lab_t m' then (Fatal ''Failed starting MLab'', m', w')
           else (Return (Some err), m', w'))
      | r \<Rightarrow> r)"

subsection \<open>Histories of a handle\<close>

text \<open>
  What can happen to a handle after \<open>New\<close>, in any order: the caller assigns the exported
  fields \<open>Stdin\<close>, \<open>Stdout\<close>, \<open>Stderr\<close> and \<open>Logger\<close>; a call of \<open>Start\<close>; the lab process
  exits; the copy from the caller's \<open>Stdin\<close> ends; the waiting goroutine gets its turn; a call
  of \<open>Close\<close>. \<open>tb.Fatal\<close> ends the test function but not the calls it has deferred, so a
  history goes on after it; a panic ends the history.
\<close>

datatype event =
    EvSet bool bool bool "logger option"
  | EvStart start_env
  | EvExit
  | EvStdinDone
  | EvWait
  | EvClose

fun panic_of :: "'a exit \<Rightarrow> panic option" where
  "panic_of (Panic p) = Some p"
| "panic_of (Return x) = None"
| "panic_of (Fatal msg) = None"

fun step :: "event \<Rightarrow> MLab \<Rightarrow> world \<Rightarrow> panic option \<times> MLab \<times> world" where
  "step (EvSet i out e lg) m w = (None, m\<lparr>Logger := lg, Stdin := i, Stdout := out, Stderr := e\<rparr>, w)"
| "step (EvStart env) m w = (case MLab_Start env m w of (r, m', w') \<Rightarrow> (panic_of r, m', w'))"
| "step EvExit m w = (None, m, if Process (cmd m) = None then w else w\<lparr>exited := True\<rparr>)"
| "step EvStdinDone m w = (None, m, w\<lparr>stdin_done := True\<rparr>)"
| "step EvWait m w = (case Wait_returns m w of (r, m', w') \<Rightarrow> (panic_of r, m', w'))"
| "step EvClose m w = (case MLab_Close m w of (r, m', w') \<Rightarrow> (panic_of r, m', w'))"

fun run :: "event list \<Rightarrow> MLab \<Rightarrow> world \<Rightarrow> panic option \<times> MLab \<times> world" where
  "run [] m w = (None, m, w)"
| "run (e # es) m w =
     (case step e m w of
        (Some p, m', w') \<Rightarrow> (Some p, m', w')
      | (None, m', w') \<Rightarrow> run es m' w')"

subsection \<open>Auxiliary notions\<close>

text \<open>The handle and the world right after a successful spawn, as \<open>doStart\<close> builds them.\<close>

definition spawned :: "start_env \<Rightarrow> nat \<Rightarrow> MLab \<Rightarrow> MLab" where
  "spawned env pid m =
     (wire_stdio m)\<lparr>cmd := (cmd (wire_stdio m))\<lparr>cmd_Stdout := True, Process := Some pid\<rparr>\<rparr>"

definition spawned_world :: "start_env \<Rightarrow> MLab \<Rightarrow> world \<Rightarrow> world" where
  "spawned_world env m w =
     w\<lparr>monitor := Waiting, exited := exits_early env,
       stdin_copy := (if Stdin m then FromCaller else FromGate (length (toBeClosed m))),
       files := (case lab_writes env of None \<Rightarrow> files w | Some s \<Rightarrow> (files w)(idfile m \<mapsto> s))\<rparr>"

text \<open>
  Whether the goroutine closes the channel before \<open>doStart\<close> comes to its \<open>select\<close>: the
  process has exited by then, and the copy of its standard input is over, which takes a
  reader supplied by the caller (the copy from the blocking reader ends only in \<open>Close\<close>).
\<close>

definition fires_early :: "start_env \<Rightarrow> MLab \<Rightarrow> world \<Rightarrow> bool" where
  "fires_early env m w = (exits_early env \<and> Stdin m \<and> stdin_done w)"

text \<open>
  What holds of a handle and its world throughout: until \<open>StdoutPipe\<close> has succeeded no
  process and no waiting goroutine exists and the channel is open; while the goroutine
  waits the channel is open; a registered reader has run its \<open>sync.Once\<close> exactly when its
  channel is closed.
\<close>

definition wired :: "MLab \<Rightarrow> world \<Rightarrow> bool" where
  "wired m w =
     ((cmd_Stdout (cmd m) \<or>
        (monitor w = NotStarted \<and> closechan m = Open \<and> Process (cmd m) = None)) \<and>
      (monitor w \<noteq> Waiting \<or> closechan m = Open) \<and>
      list_all (\<lambda>b. br_once b = (br_c b = Closed)) (toBeClosed m))"

text \<open>
  While the blocking reader that feeds the process is open, \<open>Wait\<close> cannot return:
  \<open>gate_held\<close> says that the caller supplied no \<open>Stdin\<close>, that the goroutine has not gone
  past \<open>Wait\<close>, and that, if it waits, the reader it depends on is registered and open.
  The \<open>quiet\<close> events are those that neither close the handle nor assign its fields.
\<close>

definition gate_held :: "MLab \<Rightarrow> world \<Rightarrow> bool" where
  "gate_held m w =
     (\<not> Stdin m \<and> monitor w \<noteq> Done \<and>
      (monitor w \<noteq> Waiting \<or>
       (case stdin_copy w of
          FromGate i \<Rightarrow> i < length (toBeClosed m) \<and> br_c (toBeClosed m ! i) = Open
        | NoCopy \<Rightarrow> False
        | FromCaller \<Rightarrow> False)))"

fun quiet :: "event \<Rightarrow> bool" where
  "quiet (EvSet i out e lg) = False"
| "quiet (EvStart env) = True"
| "quiet EvExit = True"
| "quiet EvStdinDone = True"
| "quiet EvWait = True"
| "quiet EvClose = False"

section \<open>Concrete inputs\<close>

definition ex_conf :: NetConfig where
  "ex_conf = \<lparr>Interfaces = [(''lo'', Some (IPv4 127 0 0 1)), (''eth0'', Some (IPv4 172 17 0 2))],
              ExposedPorts = [(5432, 55000)]\<rparr>"

definition ex_conf_noeth :: NetConfig where
  "ex_conf_noeth =
     \<lparr>Interfaces = [(''lo'', Some (IPv4 127 0 0 1)), (''docker0'', Some (IPv4 172 17 0 1))],
      ExposedPorts = [(5432, 55000)]\<rparr>"

text \<open>A configuration built by hand, whose \<open>eth0\<close> entry holds a \<open>nil\<close> address.\<close>

definition ex_conf_nil :: NetConfig where
  "ex_conf_nil =
     \<lparr>Interfaces = [(''eth0'', None), (''lo'', Some (IPv4 127 0 0 1))], ExposedPorts = []\<rparr>"

definition ex_world :: world where
  "ex_world = \<lparr>files = Map.empty, logged = [], inspections = 0, kills = 0, monitor = NotStarted,
                exited = False, stdin_copy = NoCopy, stdin_done = False\<rparr>"

definition ex_ParseIP :: "string \<Rightarrow> IP option" where
  "ex_ParseIP s =
     (if s = ''127.0.0.1'' then Some (IPv4 127 0 0 1)
      else if s = ''172.17.0.2'' then Some (IPv4 172 17 0 2)
      else None)"

text \<open>An inspection that fails the first time it is run and answers from then on.\<close>

definition ex_inspect :: "nat \<Rightarrow> string \<Rightarrow> inspect_outcome" where
  "ex_inspect k i =
     (if k = 0 then CmdFailed (ExecError ''exit status 1'')
      else CmdOutput (Inr [Ifc ''127.0.0.1'' ''lo'', Ifc ''172.17.0.2'' ''eth0''])
                     (Inr [PortMap 5432 55000]))"

text \<open>A handle whose lab is running, before and after its configuration has been resolved.\<close>

definition ex_lab :: MLab where
  "ex_lab =
     \<lparr>cmd = \<lparr>Args = [''mlab'', ''run'', ''--wait'', ''--id'', ''/tmp/tmlab.1'', ''test.mlab''],
             Process = Some 4242, cmd_Stdin = True, cmd_Stdout = True, cmd_Stderr = False\<rparr>,
      idfile = ''/tmp/tmlab.1'', lab_id = ''c0ffee'', closechan = Open,
      toBeClosed = [newBlockingReader], netConfig = None, lab_t = False, Logger = None,
      Stdin = False, Stdout = False, Stderr = False\<rparr>"

definition ex_lab_cached :: MLab where
  "ex_lab_cached = ex_lab\<lparr>netConfig := Some ex_conf\<rparr>"

text \<open>A handle as \<open>New\<close> returns it, and the world with its empty id file.\<close>

definition ex_new_lab :: MLab where
  "ex_new_lab =
     \<lparr>cmd = \<lparr>Args = [''mlab'', ''run'', ''--wait'', ''--id'', ''/tmp/tmlab.1'', ''test.mlab''],
             Process = None, cmd_Stdin = False, cmd_Stdout = False, cmd_Stderr = False\<rparr>,
      idfile = ''/tmp/tmlab.1'', lab_id = [], closechan = Open,
      toBeClosed = [], netConfig = None, lab_t = False, Logger = None,
      Stdin = False, Stdout = False, Stderr = False\<rparr>"

definition ex_new_world :: world where
  "ex_new_world = ex_world\<lparr>files := [''/tmp/tmlab.1'' \<mapsto> []]\<rparr>"

text \<open>A lab that starts, detaches and stays alive; \<open>ex_env\<close> writes its id, \<open>ex_env_noid\<close> does not.\<close>

definition ex_env :: start_env where
  "ex_env = \<lparr>pipe_result = None, spawn_result = Inr 4242,
             lab_writes = Some (''c0ffee'' @ [CHR 0x0A]), copy_result = None,
             exits_early = False, exit_state = []\<rparr>"

definition ex_env_noid :: start_env where
  "ex_env_noid = ex_env\<lparr>lab_writes := None\<rparr>"

definition ex_started_world :: world where
  "ex_started_world =
     ex_world\<lparr>files := [''/tmp/tmlab.1'' \<mapsto> ''c0ffee'' @ [CHR 0x0A]], monitor := Waiting,
              stdin_copy := FromGate 0\<rparr>"

definition ex_env_nospawn :: start_env where
  "ex_env_nospawn = ex_env\<lparr>spawn_result := Inl (ExecError ''executable file not found'')\<rparr>"

text \<open>The text written to the line logger.\<close>

definition ex_text :: string where
  "ex_text = ''a'' @ [CHR 0x0A] @ ''bb'' @ [CHR 0x0A] @ ''ccc''"

section \<open>Properties of the network configuration\<close>

subsection \<open>The primary address\<close>

lemma range_first_in: "m \<noteq> [] \<Longrightarrow> \<exists>kv \<in> set m. range_first pick m = Some (snd kv)"
proof -
  assume ne: "m \<noteq> []"
  then have "pick mod length m < length m" by simp
  then have "m ! (pick mod length m) \<in> set m" by (rule nth_mem)
  then show ?thesis using ne by (auto simp: range_first_def)
qed

lemma map_of_Some_nonempty: "map_of m k = Some v \<Longrightarrow> m \<noteq> []"
  by auto

lemma map_of_Some_in: "map_of m k = Some v \<Longrightarrow> (k, v) \<in> set m"
  by (rule map_of_SomeD)

text \<open>Every address that \<open>getNetConfig\<close> stores is one that \<open>ParseIP\<close> returned, so none is \<open>nil\<close>.\<close>

lemma list_all_update:
  "list_all P al \<Longrightarrow> P (k, v) \<Longrightarrow> list_all P (AList.update k v al)"
  by (induction al) auto

lemma parse_interfaces_nonnil:
  "list_all (\<lambda>kv. snd kv \<noteq> None) acc \<Longrightarrow> parse_interfaces ParseIP ifcs acc = Inr r \<Longrightarrow>
   list_all (\<lambda>kv. snd kv \<noteq> None) r"
proof (induction ifcs arbitrary: acc)
  case Nil
  then show ?case by simp
next
  case (Cons i ifcs)
  show ?case
  proof (cases "ParseIP (Address i)")
    case None
    with Cons.prems(2) show ?thesis by simp
  next
    case (Some ip)
    with Cons.prems(2)
    have r: "parse_interfaces ParseIP ifcs (AList.update (IFName i) (Some ip) acc) = Inr r"
      by simp
    have "list_all (\<lambda>kv. snd kv \<noteq> None) (AList.update (IFName i) (Some ip) acc)"
      using Cons.prems(1) by (simp add: list_all_update)
    from Cons.IH [OF this r] show ?thesis .
  qed
qed

lemma getNetConfig_nonnil:
  assumes "MLab_getNetConfig ParseIP inspect m w = (Inr nc, w')"
  shows "list_all (\<lambda>kv. snd kv \<noteq> None) (Interfaces nc)"
proof -
  from assms obtain ifcs where p: "parse_interfaces ParseIP ifcs [] = Inr (Interfaces nc)"
    by (auto simp: MLab_getNetConfig_def Let_def split: inspect_outcome.splits sum.splits)
  have "list_all (\<lambda>kv. snd kv \<noteq> None) ([] :: (string \<times> IP option) list)" by simp
  from parse_interfaces_nonnil [OF this p] show ?thesis .
qed

lemma ex_getNetConfig:
  "MLab_getNetConfig ex_ParseIP ex_inspect ex_lab (ex_world\<lparr>inspections := 1\<rparr>) =
     (Inr ex_conf, ex_world\<lparr>inspections := 2\<rparr>)"
  by (simp add: MLab_getNetConfig_def ex_lab_def ex_inspect_def ex_world_def
      ex_ParseIP_def ex_conf_def AList.update_def Let_def)

text \<open>
  Claim C9, as the specification states it, at a concrete input: a configuration with two
  interfaces, where the address stored under \<open>eth0\<close> is \<open>nil\<close>. \<open>IP\<close> returns that \<open>nil\<close>,
  although interfaces are present.
\<close>

theorem NetConfig_IP_nil_counterexample:
  "Interfaces ex_conf_nil \<noteq> [] \<and>
   map_of (Interfaces ex_conf_nil) ''eth0'' = Some None \<and>
   NetConfig_IP 0 (Some ex_conf_nil) = None"
  by (simp add: ex_conf_nil_def NetConfig_IP_def)

text \<open>
  Claim C9, amended. For every configuration and every choice the runtime makes in the
  \<open>range\<close> loop, \<open>IP\<close> returns the address stored under \<open>eth0\<close> when that key is present
  (\<open>nil\<close> when the stored address is \<open>nil\<close>); when the key is absent and there is at least
  one interface, it returns the address of one of the interfaces; it returns \<open>nil\<close> when
  there is no interface (and on a \<open>nil\<close> receiver), and, for a configuration none of
  whose stored addresses is \<open>nil\<close>, exactly then. Every configuration that \<open>getNetConfig\<close>
  returns is of that kind.
\<close>

theorem NetConfig_IP_selection:
  "(map_of (Interfaces n) ''eth0'' = Some a \<longrightarrow> NetConfig_IP pick (Some n) = a) \<and>
   (map_of (Interfaces n) ''eth0'' = None \<and> Interfaces n \<noteq> [] \<longrightarrow>
      (\<exists>kv \<in> set (Interfaces n). NetConfig_IP pick (Some n) = snd kv)) \<and>
   (Interfaces n = [] \<longrightarrow> NetConfig_IP pick (Some n) = None) \<and>
   (list_all (\<lambda>kv. snd kv \<noteq> None) (Interfaces n) \<longrightarrow>
      (NetConfig_IP pick (Some n) = None \<longleftrightarrow> Interfaces n = [])) \<and>
   NetConfig_IP pick None = None \<and>
   (\<forall>ParseIP inspect m w nc w'.
      MLab_getNetConfig ParseIP inspect m w = (Inr nc, w') \<longrightarrow>
        list_all (\<lambda>kv. snd kv \<noteq> None) (Interfaces nc))"
proof (intro conjI impI allI)
  assume "map_of (Interfaces n) ''eth0'' = Some a"
  then show "NetConfig_IP pick (Some n) = a"
    by (auto simp: NetConfig_IP_def)
next
  assume "map_of (Interfaces n) ''eth0'' = None \<and> Interfaces n \<noteq> []"
  then have e: "map_of (Interfaces n) ''eth0'' = None" and ne: "Interfaces n \<noteq> []"
    by simp_all
  from range_first_in [OF ne, of pick] obtain kv where
    k: "kv \<in> set (Interfaces n)" and r: "range_first pick (Interfaces n) = Some (snd kv)"
    by blast
  from e ne r have "NetConfig_IP pick (Some n) = snd kv"
    by (simp add: NetConfig_IP_def)
  with k show "\<exists>kv \<in> set (Interfaces n). NetConfig_IP pick (Some n) = snd kv"
    by blast
next
  assume "Interfaces n = []"
  then show "NetConfig_IP pick (Some n) = None"
    by (simp add: NetConfig_IP_def)
next
  assume nn: "list_all (\<lambda>kv. snd kv \<noteq> None) (Interfaces n)"
  show "NetConfig_IP pick (Some n) = None \<longleftrightarrow> Interfaces n = []"
  proof (cases "Interfaces n = []")
    case True
    then show ?thesis by (simp add: NetConfig_IP_def)
  next
    case False
    have "NetConfig_IP pick (Some n) \<noteq> None"
    proof (cases "map_of (Interfaces n) ''eth0''")
      case None
      from range_first_in [OF False, of pick] obtain kv where
        k: "kv \<in> set (Interfaces n)" and r: "range_first pick (Interfaces n) = Some (snd kv)"
        by blast
      from nn k have "snd kv \<noteq> None" by (simp add: list_all_iff)
      with None r False show ?thesis by (simp add: NetConfig_IP_def)
    next
      case (Some a)
      from map_of_Some_in [OF Some] nn have "a \<noteq> None" by (auto simp: list_all_iff)
      with Some False show ?thesis by (simp add: NetConfig_IP_def)
    qed
    with False show ?thesis by simp
  qed
next
  show "NetConfig_IP pick None = None"
    by (simp add: NetConfig_IP_def)
next
  fix ParseIP inspect m w nc w'
  assume "MLab_getNetConfig ParseIP inspect m w = (Inr nc, w')"
  then show "list_all (\<lambda>kv. snd kv \<noteq> None) (Interfaces nc)"
    by (rule getNetConfig_nonnil)
qed

theorem NetConfig_IP_selection_witness:
  "map_of (Interfaces ex_conf) ''eth0'' = Some (Some (IPv4 172 17 0 2)) \<and>
   NetConfig_IP 7 (Some ex_conf) = Some (IPv4 172 17 0 2) \<and>
   map_of (Interfaces ex_conf_nil) ''eth0'' = Some None \<and>
   NetConfig_IP 7 (Some ex_conf_nil) = None \<and>
   map_of (Interfaces ex_conf_noeth) ''eth0'' = None \<and> Interfaces ex_conf_noeth \<noteq> [] \<and>
   NetConfig_IP 7 (Some ex_conf_noeth) = Some (IPv4 172 17 0 1) \<and>
   NetConfig_IP 7 (Some \<lparr>Interfaces = [], ExposedPorts = []\<rparr>) = None \<and>
   list_all (\<lambda>kv. snd kv \<noteq> None) (Interfaces ex_conf) \<and>
   NetConfig_IP 7 (Some ex_conf) \<noteq> None \<and>
   MLab_getNetConfig ex_ParseIP ex_inspect ex_lab (ex_world\<lparr>inspections := 1\<rparr>) =
     (Inr ex_conf, ex_world\<lparr>inspections := 2\<rparr>)"
proof -
  have e1: "map_of (Interfaces ex_conf) ''eth0'' = Some (Some (IPv4 172 17 0 2))"
    by (simp add: ex_conf_def)
  have e2: "map_of (Interfaces ex_conf_noeth) ''eth0'' = None \<and> Interfaces ex_conf_noeth \<noteq> []"
    by (simp add: ex_conf_noeth_def)
  have e3: "NetConfig_IP 7 (Some ex_conf_noeth) = Some (IPv4 172 17 0 1)"
    by code_simp
  have e4: "map_of (Interfaces ex_conf_nil) ''eth0'' = Some None"
    by (simp add: ex_conf_nil_def)
  have e5: "list_all (\<lambda>kv. snd kv \<noteq> None) (Interfaces ex_conf)"
    by (simp add: ex_conf_def)
  have e6: "Interfaces ex_conf \<noteq> []"
    by (simp add: ex_conf_def)
  show ?thesis
    using e1 e2 e3 e4 e5 e6 ex_getNetConfig
      NetConfig_IP_selection [of ex_conf "Some (IPv4 172 17 0 2)" 7]
      NetConfig_IP_selection [of ex_conf_nil None 7]
      NetConfig_IP_selection [of ex_conf_noeth None 7]
      NetConfig_IP_selection [of "\<lparr>Interfaces = [], ExposedPorts = []\<rparr>" None 7]
    by simp
qed

subsection \<open>Resolution and its cache\<close>

lemma getNetConfig_inspections:
  "inspections (snd (MLab_getNetConfig ParseIP inspect m w)) = Suc (inspections w)"
  by (simp add: MLab_getNetConfig_def Let_def split: inspect_outcome.split sum.split)

lemma NetConfig_cached:
  "netConfig m = Some nc \<Longrightarrow> MLab_NetConfig ParseIP inspect m w = (Inr nc, m, w)"
  by (simp add: MLab_NetConfig_def)

lemma NetConfig_uncached:
  "netConfig m = None \<Longrightarrow>
   MLab_NetConfig ParseIP inspect m w =
     (case MLab_getNetConfig ParseIP inspect m w of
        (Inr nc, w') \<Rightarrow> (Inr nc, m\<lparr>netConfig := Some nc\<rparr>, w')
      | (Inl err, w') \<Rightarrow> (Inl err, m, w'))"
  by (simp add: MLab_NetConfig_def)

lemma NetConfig_Inr_cache:
  assumes "MLab_NetConfig ParseIP inspect m w = (Inr nc, m', w')"
  shows "netConfig m' = Some nc"
proof (cases "netConfig m")
  case None
  with assms show ?thesis
    by (auto simp: NetConfig_uncached split: prod.splits sum.splits)
next
  case (Some a)
  with assms show ?thesis
    by (simp add: NetConfig_cached)
qed

lemma NetConfig_uncached_inspects:
  assumes "netConfig m = None"
  shows "inspections (snd (snd (MLab_NetConfig ParseIP inspect m w))) = Suc (inspections w)"
proof -
  obtain r w1 where g: "MLab_getNetConfig ParseIP inspect m w = (r, w1)"
    by (cases "MLab_getNetConfig ParseIP inspect m w")
  have "inspections w1 = Suc (inspections w)"
    using getNetConfig_inspections [of ParseIP inspect m w] g by simp
  then show ?thesis
    by (cases r) (simp_all add: NetConfig_uncached [OF assms] g)
qed

lemma GetAddressPort_state:
  "snd (MLab_GetAddressPort ParseIP inspect mlab_host pick m w port) =
   snd (MLab_NetConfig ParseIP inspect m w)"
  by (simp add: MLab_GetAddressPort_def split: prod.split sum.split option.split)

lemma GetAddressPort_resolved:
  assumes "MLab_NetConfig ParseIP inspect m w = (Inr conf, m', w')"
  shows "MLab_GetAddressPort ParseIP inspect mlab_host pick m w port =
     (case (if \<not> NeedForwarding mlab_host then NetConfig_IP pick (Some conf) else None) of
        Some ip \<Rightarrow> (Inr (ip, port), m', w')
      | None \<Rightarrow>
          (case map_of (ExposedPorts conf) port of
             Some fport \<Rightarrow> (Inr (loopbackAddress, fport), m', w')
           | None \<Rightarrow> (Inl (Errorf (''could not find port mapping for '' @ fmt_d port)), m', w')))"
  by (simp add: MLab_GetAddressPort_def assms)

text \<open>The concrete handle: the first inspection fails, the second one is cached.\<close>

lemma ex_lab_NetConfig_fails:
  "MLab_NetConfig ex_ParseIP ex_inspect ex_lab ex_world =
     (Inl (ExecError ''exit status 1''), ex_lab, ex_world\<lparr>inspections := 1\<rparr>)"
  by (simp add: MLab_NetConfig_def MLab_getNetConfig_def ex_lab_def ex_inspect_def ex_world_def
       Let_def)

lemma ex_lab_NetConfig:
  "MLab_NetConfig ex_ParseIP ex_inspect ex_lab (ex_world\<lparr>inspections := 1\<rparr>) =
     (Inr ex_conf, ex_lab_cached, ex_world\<lparr>inspections := 2\<rparr>)"
  by (simp add: MLab_NetConfig_def MLab_getNetConfig_def ex_lab_def ex_inspect_def ex_world_def
      ex_ParseIP_def ex_conf_def ex_lab_cached_def AList.update_def Let_def)

lemma ex_cached_NetConfig:
  "MLab_NetConfig ex_ParseIP ex_inspect ex_lab_cached ex_world =
     (Inr ex_conf, ex_lab_cached, ex_world)"
  by (simp add: NetConfig_cached ex_lab_cached_def)

lemma ex_conf_IP: "NetConfig_IP 0 (Some ex_conf) = Some (IPv4 172 17 0 2)"
  by (simp add: NetConfig_IP_def ex_conf_def)

lemma ex_fmt_d: "fmt_d 8080 = ''8080''"
  by (simp add: fmt_d_def digit_char_def digits10.simps [of 8080] digits10.simps [of 808]
      digits10.simps [of 80] digits10.simps [of 8])

text \<open>
  Claim C5. Once a call of \<open>NetConfig\<close> has succeeded on a handle, the handle holds the
  result, and every later call, whatever the inspection would answer then, returns that
  same value and leaves the handle and the world as they are: the count of inspections
  does not move and the cached value is not changed, by \<open>NetConfig\<close> or by
  \<open>GetAddressPort\<close>.
\<close>

theorem NetConfig_memoized:
  assumes "MLab_NetConfig ParseIP inspect m w = (Inr nc, m', w')"
  shows "netConfig m' = Some nc \<and>
         (\<forall>ParseIP' inspect' w''.
            MLab_NetConfig ParseIP' inspect' m' w'' = (Inr nc, m', w'')) \<and>
         (\<forall>ParseIP' inspect' mlab_host pick w'' port.
            snd (MLab_GetAddressPort ParseIP' inspect' mlab_host pick m' w'' port) = (m', w''))"
proof -
  have c: "netConfig m' = Some nc"
    using assms by (rule NetConfig_Inr_cache)
  then show ?thesis
    by (simp add: GetAddressPort_state NetConfig_cached)
qed

theorem NetConfig_memoized_witness:
  "MLab_NetConfig ex_ParseIP ex_inspect ex_lab (ex_world\<lparr>inspections := 1\<rparr>) =
     (Inr ex_conf, ex_lab_cached, ex_world\<lparr>inspections := 2\<rparr>) \<and>
   netConfig ex_lab_cached = Some ex_conf \<and>
   MLab_NetConfig ex_ParseIP ex_inspect ex_lab_cached (ex_world\<lparr>inspections := 2\<rparr>) =
     (Inr ex_conf, ex_lab_cached, ex_world\<lparr>inspections := 2\<rparr>)"
  using ex_lab_NetConfig NetConfig_memoized [OF ex_lab_NetConfig]
  by simp

text \<open>
  Claim C10. When a call of \<open>NetConfig\<close> returns an error, nothing was cached before it and
  nothing is cached after it: the handle is unchanged, the error is the one \<open>getNetConfig\<close>
  returned, one inspection has been run, and the next call on the handle runs an inspection
  again. The cache field changes only in a call that returns a configuration, and then
  holds that configuration.
\<close>

theorem NetConfig_failure_not_cached:
  assumes "MLab_NetConfig ParseIP inspect m w = (r, m', w')"
  shows "(\<forall>err. r = Inl err \<longrightarrow>
            netConfig m = None \<and> m' = m \<and> netConfig m' = None \<and>
            MLab_getNetConfig ParseIP inspect m w = (Inl err, w') \<and>
            inspections w' = Suc (inspections w) \<and>
            (\<forall>ParseIP' inspect' w''.
               inspections (snd (snd (MLab_NetConfig ParseIP' inspect' m' w''))) =
                 Suc (inspections w''))) \<and>
         (netConfig m' \<noteq> netConfig m \<longrightarrow>
            (\<exists>nc. r = Inr nc \<and> netConfig m' = Some nc \<and>
                  MLab_getNetConfig ParseIP inspect m w = (Inr nc, w')))"
proof (cases "netConfig m")
  case (Some a)
  with assms show ?thesis
    by (auto simp: NetConfig_cached)
next
  case None
  obtain r1 w1 where g: "MLab_getNetConfig ParseIP inspect m w = (r1, w1)"
    by (cases "MLab_getNetConfig ParseIP inspect m w")
  have i: "inspections w1 = Suc (inspections w)"
    using getNetConfig_inspections [of ParseIP inspect m w] g by simp
  show ?thesis
  proof (cases r1)
    case (Inl err)
    with assms g None have "r = Inl err" "m' = m" "w' = w1"
      by (simp_all add: NetConfig_uncached)
    with None g Inl i show ?thesis
      by (simp add: NetConfig_uncached_inspects)
  next
    case (Inr nc)
    with assms g None have "r = Inr nc" "m' = m\<lparr>netConfig := Some nc\<rparr>" "w' = w1"
      by (simp_all add: NetConfig_uncached)
    with g Inr show ?thesis
      by simp
  qed
qed

theorem NetConfig_failure_not_cached_witness:
  "MLab_NetConfig ex_ParseIP ex_inspect ex_lab ex_world =
     (Inl (ExecError ''exit status 1''), ex_lab, ex_world\<lparr>inspections := 1\<rparr>) \<and>
   netConfig ex_lab = None \<and>
   inspections (ex_world\<lparr>inspections := 1\<rparr>) = Suc (inspections ex_world) \<and>
   inspections (snd (snd (MLab_NetConfig ex_ParseIP ex_inspect ex_lab
       (ex_world\<lparr>inspections := 1\<rparr>)))) = 2 \<and>
   MLab_NetConfig ex_ParseIP ex_inspect ex_lab (ex_world\<lparr>inspections := 1\<rparr>) =
     (Inr ex_conf, ex_lab_cached, ex_world\<lparr>inspections := 2\<rparr>) \<and>
   netConfig ex_lab_cached \<noteq> netConfig ex_lab \<and>
   MLab_getNetConfig ex_ParseIP ex_inspect ex_lab (ex_world\<lparr>inspections := 1\<rparr>) =
     (Inr ex_conf, ex_world\<lparr>inspections := 2\<rparr>)"
proof -
  have c: "netConfig ex_lab_cached \<noteq> netConfig ex_lab"
    by (simp add: ex_lab_cached_def ex_lab_def)
  show ?thesis
    using c ex_lab_NetConfig_fails ex_lab_NetConfig
      NetConfig_failure_not_cached [OF ex_lab_NetConfig_fails]
      NetConfig_failure_not_cached [OF ex_lab_NetConfig]
    by simp
qed

subsection \<open>The address and port of a service\<close>

text \<open>
  Claim C1, as the specification states it, at a concrete input: with \<open>MLAB_HOST\<close> empty
  (so not beginning with \<open>unix:\<close>) and a primary address present, \<open>GetAddressPort\<close> returns
  the loopback address and the mapped port, not the primary address; with a value that
  begins with \<open>unix:\<close> it returns the primary address and the internal port.
\<close>

theorem GetAddressPort_routed_counterexample:
  "\<not> prefix ''unix:'' [] \<and>
   NetConfig_IP 0 (Some ex_conf) = Some (IPv4 172 17 0 2) \<and>
   MLab_GetAddressPort ex_ParseIP ex_inspect [] 0 ex_lab_cached ex_world 5432 =
     (Inr (loopbackAddress, 55000), ex_lab_cached, ex_world) \<and>
   prefix ''unix:'' ''unix:///var/run/mlab.sock'' \<and>
   MLab_GetAddressPort ex_ParseIP ex_inspect ''unix:///var/run/mlab.sock'' 0 ex_lab_cached
       ex_world 5432 =
     (Inr (IPv4 172 17 0 2, 5432), ex_lab_cached, ex_world)"
  by (simp add: GetAddressPort_resolved [OF ex_cached_NetConfig] NeedForwarding_def ex_conf_IP)
     (simp add: ex_conf_def)

text \<open>
  Claim C1, amended. \<open>NeedForwarding\<close> holds exactly when \<open>MLAB_HOST\<close> does not begin with
  \<open>unix:\<close>. Once the configuration is resolved, \<open>GetAddressPort\<close> returns the primary
  address unchanged with the internal port when the value begins with \<open>unix:\<close> and a
  primary address exists; when the value does not begin with \<open>unix:\<close> it takes the
  forwarding path, whatever the interfaces are.
\<close>

theorem GetAddressPort_mode:
  assumes "MLab_NetConfig ParseIP inspect m w = (Inr conf, m', w')"
  shows "NeedForwarding mlab_host = (\<not> prefix ''unix:'' mlab_host) \<and>
         (prefix ''unix:'' mlab_host \<and> NetConfig_IP pick (Some conf) = Some ip \<longrightarrow>
            MLab_GetAddressPort ParseIP inspect mlab_host pick m w port =
              (Inr (ip, port), m', w')) \<and>
         (\<not> prefix ''unix:'' mlab_host \<longrightarrow>
            MLab_GetAddressPort ParseIP inspect mlab_host pick m w port =
              (case map_of (ExposedPorts conf) port of
                 Some fport \<Rightarrow> (Inr (loopbackAddress, fport), m', w')
               | None \<Rightarrow>
                   (Inl (Errorf (''could not find port mapping for '' @ fmt_d port)), m', w')))"
  by (simp add: GetAddressPort_resolved [OF assms] NeedForwarding_def)

theorem GetAddressPort_mode_witness:
  "MLab_NetConfig ex_ParseIP ex_inspect ex_lab_cached ex_world =
     (Inr ex_conf, ex_lab_cached, ex_world) \<and>
   prefix ''unix:'' ''unix:///var/run/mlab.sock'' \<and>
   NetConfig_IP 0 (Some ex_conf) = Some (IPv4 172 17 0 2) \<and>
   MLab_GetAddressPort ex_ParseIP ex_inspect ''unix:///var/run/mlab.sock'' 0 ex_lab_cached
       ex_world 5432 =
     (Inr (IPv4 172 17 0 2, 5432), ex_lab_cached, ex_world) \<and>
   \<not> prefix ''unix:'' ''tcp://10.1.1.1:8080'' \<and>
   MLab_GetAddressPort ex_ParseIP ex_inspect ''tcp://10.1.1.1:8080'' 0 ex_lab_cached
       ex_world 5432 =
     (Inr (loopbackAddress, 55000), ex_lab_cached, ex_world)"
proof -
  have p1: "prefix ''unix:'' ''unix:///var/run/mlab.sock''" by simp
  have p2: "\<not> prefix ''unix:'' ''tcp://10.1.1.1:8080''" by simp
  have p3: "map_of (ExposedPorts ex_conf) 5432 = Some 55000" by (simp add: ex_conf_def)
  show ?thesis
    using p1 p2 p3 ex_conf_IP ex_cached_NetConfig
      GetAddressPort_mode [OF ex_cached_NetConfig,
        of "''unix:///var/run/mlab.sock''" 0 "IPv4 172 17 0 2" 5432]
      GetAddressPort_mode [OF ex_cached_NetConfig,
        of "''tcp://10.1.1.1:8080''" 0 "IPv4 172 17 0 2" 5432]
    by simp
qed

text \<open>
  Claim C6. Once the configuration is resolved, when forwarding is needed or there is no
  primary address: a port with a recorded mapping gives the loopback address 127.0.0.1
  (in its 16-byte form) and the mapped port; a port without one gives the error whose
  message ends with the requested port in decimal; and the call returns an error exactly
  when the port has no mapping.
\<close>

theorem GetAddressPort_forwarding:
  assumes "MLab_NetConfig ParseIP inspect m w = (Inr conf, m', w')"
      and "NeedForwarding mlab_host \<or> NetConfig_IP pick (Some conf) = None"
  shows "(\<forall>fport. map_of (ExposedPorts conf) port = Some fport \<longrightarrow>
            MLab_GetAddressPort ParseIP inspect mlab_host pick m w port =
              (Inr (loopbackAddress, fport), m', w')) \<and>
         (map_of (ExposedPorts conf) port = None \<longrightarrow>
            MLab_GetAddressPort ParseIP inspect mlab_host pick m w port =
              (Inl (Errorf (''could not find port mapping for '' @ fmt_d port)), m', w')) \<and>
         (isl (fst (MLab_GetAddressPort ParseIP inspect mlab_host pick m w port)) \<longleftrightarrow>
            map_of (ExposedPorts conf) port = None) \<and>
         loopbackAddress = [0, 0, 0, 0, 0, 0, 0, 0, 0, 0, 0xff, 0xff, 127, 0, 0, 1]"
proof -
  have sel: "(if \<not> NeedForwarding mlab_host then NetConfig_IP pick (Some conf) else None) = None"
    using assms(2) by auto
  show ?thesis
    by (cases "map_of (ExposedPorts conf) port")
       (simp_all add: GetAddressPort_resolved [OF assms(1)] sel loopbackAddress_def IPv4_def)
qed

theorem GetAddressPort_forwarding_witness:
  "MLab_NetConfig ex_ParseIP ex_inspect ex_lab_cached ex_world =
     (Inr ex_conf, ex_lab_cached, ex_world) \<and>
   NeedForwarding ''tcp://10.1.1.1:8080'' \<and>
   map_of (ExposedPorts ex_conf) 5432 = Some 55000 \<and>
   MLab_GetAddressPort ex_ParseIP ex_inspect ''tcp://10.1.1.1:8080'' 0 ex_lab_cached
       ex_world 5432 =
     (Inr (loopbackAddress, 55000), ex_lab_cached, ex_world) \<and>
   map_of (ExposedPorts ex_conf) 8080 = None \<and>
   MLab_GetAddressPort ex_ParseIP ex_inspect ''tcp://10.1.1.1:8080'' 0 ex_lab_cached
       ex_world 8080 =
     (Inl (Errorf ''could not find port mapping for 8080''), ex_lab_cached, ex_world)"
proof -
  have n: "NeedForwarding ''tcp://10.1.1.1:8080''" by (simp add: NeedForwarding_def)
  then have h: "NeedForwarding ''tcp://10.1.1.1:8080'' \<or> NetConfig_IP 0 (Some ex_conf) = None"
    by simp
  have p1: "map_of (ExposedPorts ex_conf) 5432 = Some 55000" by (simp add: ex_conf_def)
  have p2: "map_of (ExposedPorts ex_conf) 8080 = None" by (simp add: ex_conf_def)
  show ?thesis
    using n p1 p2 ex_cached_NetConfig ex_fmt_d
      GetAddressPort_forwarding [OF ex_cached_NetConfig h, of 5432]
      GetAddressPort_forwarding [OF ex_cached_NetConfig h, of 8080]
    by simp
qed

section \<open>Properties of the blocking reader\<close>

lemma Close_released: "br_once b \<Longrightarrow> blockingReader_Close b = Inr (b, None)"
  by (simp add: blockingReader_Close_def)

lemma Close_fresh:
  "\<not> br_once b \<Longrightarrow> br_c b = Open \<Longrightarrow>
   blockingReader_Close b = Inr (b\<lparr>br_once := True, br_c := Closed\<rparr>, None)"
  by (simp add: blockingReader_Close_def close_chan_def)

lemma run_gate_inv:
  assumes "br_once b = (br_c b = Closed)"
  shows "\<exists>rs b'. run_gate ops b = Inr (rs, b') \<and> length rs = length ops \<and>
           (\<forall>i < length ops.
              rs ! i = (case ops ! i of
                          OpClose \<Rightarrow> DidClose None
                        | OpRead \<Rightarrow>
                            DidRead (if br_c b = Closed \<or> OpClose \<in> set (take i ops)
                                     then ReadReturns 0 (Some EOF) else ReadBlocks))) \<and>
           b' = (if OpClose \<in> set ops then b\<lparr>br_once := True, br_c := Closed\<rparr> else b)"
  using assms
proof (induction ops arbitrary: b)
  case Nil
  then show ?case by simp
next
  case (Cons op ops)
  show ?case
  proof (cases op)
    case OpRead
    from Cons.IH [OF Cons.prems] obtain rs b' where
      r: "run_gate ops b = Inr (rs, b')" and l: "length rs = length ops" and
      n: "\<forall>i < length ops.
              rs ! i = (case ops ! i of
                          OpClose \<Rightarrow> DidClose None
                        | OpRead \<Rightarrow>
                            DidRead (if br_c b = Closed \<or> OpClose \<in> set (take i ops)
                                     then ReadReturns 0 (Some EOF) else ReadBlocks))" and
      f: "b' = (if OpClose \<in> set ops then b\<lparr>br_once := True, br_c := Closed\<rparr> else b)"
      by blast
    have h: "blockingReader_Read b =
        (if br_c b = Closed then ReadReturns 0 (Some EOF) else ReadBlocks)"
      by (cases "br_c b") (simp_all add: blockingReader_Read_def)
    show ?thesis
      using r l n f h OpRead
      by (auto simp: nth_Cons split: nat.split)
  next
    case OpClose
    define b1 where "b1 = b\<lparr>br_once := True, br_c := Closed\<rparr>"
    have c: "blockingReader_Close b = Inr (b1, None)"
    proof (cases "br_once b")
      case True
      with Cons.prems have "b1 = b" by (simp add: b1_def)
      with True show ?thesis by (simp add: Close_released)
    next
      case False
      with Cons.prems have "br_c b = Open" by (cases "br_c b") simp_all
      with False show ?thesis by (simp add: Close_fresh b1_def)
    qed
    have i1: "br_once b1 = (br_c b1 = Closed)" by (simp add: b1_def)
    from Cons.IH [OF i1] obtain rs b' where
      r: "run_gate ops b1 = Inr (rs, b')" and l: "length rs = length ops" and
      n: "\<forall>i < length ops.
              rs ! i = (case ops ! i of
                          OpClose \<Rightarrow> DidClose None
                        | OpRead \<Rightarrow>
                            DidRead (if br_c b1 = Closed \<or> OpClose \<in> set (take i ops)
                                     then ReadReturns 0 (Some EOF) else ReadBlocks))" and
      f: "b' = (if OpClose \<in> set ops then b1\<lparr>br_once := True, br_c := Closed\<rparr> else b1)"
      by blast
    have b1c: "br_c b1 = Closed" by (simp add: b1_def)
    have f': "b' = b1" using f by (simp add: b1_def)
    show ?thesis
      using r l n f' c OpClose b1c
      by (auto simp: nth_Cons b1_def split: nat.split)
  qed
qed

text \<open>
  Claim C3. For every schedule of \<open>Read\<close> and \<open>Close\<close> operations on a new blocking
  reader: no operation panics, so the channel is never closed twice; every \<open>Close\<close>
  returns, with no error; a \<open>Read\<close> that comes before the first \<open>Close\<close> of the schedule
  blocks; a \<open>Read\<close> that comes after it, were it tried before or not, returns zero bytes
  and \<open>io.EOF\<close>; and the reader ends released exactly when the schedule has a \<open>Close\<close>.
\<close>

theorem blockingReader_gate:
  "\<exists>rs b. run_gate ops newBlockingReader = Inr (rs, b) \<and> length rs = length ops \<and>
     (\<forall>i < length ops.
        rs ! i = (case ops ! i of
                    OpClose \<Rightarrow> DidClose None
                  | OpRead \<Rightarrow>
                      DidRead (if OpClose \<in> set (take i ops)
                               then ReadReturns 0 (Some EOF) else ReadBlocks))) \<and>
     b = (if OpClose \<in> set ops then \<lparr>br_once = True, br_c = Closed\<rparr> else newBlockingReader)"
proof -
  have i0: "br_once newBlockingReader = (br_c newBlockingReader = Closed)"
    by (simp add: newBlockingReader_def)
  have c0: "br_c newBlockingReader \<noteq> Closed"
    by (simp add: newBlockingReader_def)
  have u: "newBlockingReader\<lparr>br_once := True, br_c := Closed\<rparr> =
           \<lparr>br_once = True, br_c = Closed\<rparr>"
    by (simp add: newBlockingReader_def)
  from run_gate_inv [OF i0, of ops] obtain rs b where
    "run_gate ops newBlockingReader = Inr (rs, b)" and "length rs = length ops" and
    "\<forall>i < length ops.
        rs ! i = (case ops ! i of
                    OpClose \<Rightarrow> DidClose None
                  | OpRead \<Rightarrow>
                      DidRead (if br_c newBlockingReader = Closed \<or> OpClose \<in> set (take i ops)
                               then ReadReturns 0 (Some EOF) else ReadBlocks))" and
    "b = (if OpClose \<in> set ops then newBlockingReader\<lparr>br_once := True, br_c := Closed\<rparr>
          else newBlockingReader)"
    by blast
  then show ?thesis
    unfolding u using c0 by simp
qed

theorem blockingReader_gate_witness:
  "run_gate [OpRead, OpClose, OpRead, OpClose, OpRead] newBlockingReader =
     Inr ([DidRead ReadBlocks, DidClose None, DidRead (ReadReturns 0 (Some EOF)),
           DidClose None, DidRead (ReadReturns 0 (Some EOF))],
          \<lparr>br_once = True, br_c = Closed\<rparr>)"
proof -
  have e: "run_gate [OpRead, OpClose, OpRead, OpClose, OpRead] newBlockingReader =
     Inr ([DidRead ReadBlocks, DidClose None, DidRead (ReadReturns 0 (Some EOF)),
           DidClose None, DidRead (ReadReturns 0 (Some EOF))],
          \<lparr>br_once = True, br_c = Closed\<rparr>)"
    by (simp add: newBlockingReader_def blockingReader_Read_def blockingReader_Close_def
        close_chan_def)
  show ?thesis
    using e blockingReader_gate [of "[OpRead, OpClose, OpRead, OpClose, OpRead]"]
    by simp
qed

section \<open>Properties of the line logger\<close>

lemma scan_lines_append:
  "scan_lines held (p @ q) =
     (case scan_lines held p of
        (t1, r1) \<Rightarrow> (case scan_lines r1 q of (t2, r2) \<Rightarrow> (t1 @ t2, r2)))"
  by (induction p arbitrary: held) (auto split: prod.split)

lemma Write_nonempty:
  "\<not> ll_done l \<Longrightarrow> p \<noteq> [] \<Longrightarrow>
   fst (lineLogger_Write l p) =
     l\<lparr>ll_buf := snd (scan_lines (ll_buf l) p),
       ll_lines := ll_lines l @ fst (scan_lines (ll_buf l) p), ll_empties := 0\<rparr>"
  by (simp add: lineLogger_Write_def split: prod.split)

lemma writes_nonempty:
  "\<not> ll_done l \<Longrightarrow> [] \<notin> set ps \<Longrightarrow>
   writes ps l =
     l\<lparr>ll_buf := snd (scan_lines (ll_buf l) (concat ps)),
       ll_lines := ll_lines l @ fst (scan_lines (ll_buf l) (concat ps)),
       ll_empties := (if ps = [] then ll_empties l else 0)\<rparr>"
proof (induction ps arbitrary: l)
  case Nil
  then show ?case by simp
next
  case (Cons p ps)
  then have ne: "p \<noteq> []" and rest: "[] \<notin> set ps" by auto
  let ?l1 = "fst (lineLogger_Write l p)"
  have w: "?l1 = l\<lparr>ll_buf := snd (scan_lines (ll_buf l) p),
       ll_lines := ll_lines l @ fst (scan_lines (ll_buf l) p), ll_empties := 0\<rparr>"
    using Cons.prems(1) ne by (rule Write_nonempty)
  then have nd: "\<not> ll_done ?l1" using Cons.prems(1) by simp
  show ?case
    using Cons.IH [OF nd rest] w
    by (simp add: scan_lines_append split: prod.split)
qed

lemma ex_text_scan: "scan_lines [] ex_text = ([''a'', ''bb''], ''ccc'')"
  by (simp add: ex_text_def dropCR_def)

text \<open>
  Claim C7. However the bytes of \<open>ex_text\<close> (a, newline, bb, newline, ccc) are cut into
  successive non-empty writes, once the writes have been taken in the callback has been
  called exactly twice, with \<open>a\<close> and then \<open>bb\<close>; \<open>ccc\<close> is still held by the scanner and
  the logger is not closed.
\<close>

theorem lineLogger_chunks:
  assumes "concat chunks = ex_text" and "[] \<notin> set chunks"
  shows "ll_lines (writes chunks NewLineLogger) = [''a'', ''bb''] \<and>
         ll_buf (writes chunks NewLineLogger) = ''ccc'' \<and>
         \<not> ll_done (writes chunks NewLineLogger)"
proof -
  have nd: "\<not> ll_done NewLineLogger" by (simp add: NewLineLogger_def)
  show ?thesis
    using writes_nonempty [OF nd assms(2)] assms(1) ex_text_scan
    by (simp add: NewLineLogger_def)
qed

lemma ex_chunks_concat: "concat [''a'', [CHR 0x0A, CHR ''b''], ''b'' @ [CHR 0x0A] @ ''cc'', ''c''] = ex_text"
  by (simp add: ex_text_def)

theorem lineLogger_chunks_witness:
  "concat [''a'', [CHR 0x0A, CHR ''b''], ''b'' @ [CHR 0x0A] @ ''cc'', ''c''] = ex_text \<and>
   [] \<notin> set [''a'', [CHR 0x0A, CHR ''b''], ''b'' @ [CHR 0x0A] @ ''cc'', ''c''] \<and>
   ll_lines (writes [''a'', [CHR 0x0A, CHR ''b''], ''b'' @ [CHR 0x0A] @ ''cc'', ''c'']
     NewLineLogger) = [''a'', ''bb'']"
proof -
  have n: "[] \<notin> set [''a'', [CHR 0x0A, CHR ''b''], ''b'' @ [CHR 0x0A] @ ''cc'', ''c'']"
    by simp
  show ?thesis
    using n ex_chunks_concat lineLogger_chunks [OF ex_chunks_concat n]
    by simp
qed

text \<open>Closing the writer then hands the unterminated rest to the callback.\<close>

lemma lineLogger_Close_rest:
  assumes "concat chunks = ex_text" and "[] \<notin> set chunks"
  shows "ll_lines (lineLogger_Close (writes chunks NewLineLogger)) = [''a'', ''bb'', ''ccc'']"
proof -
  have nd: "\<not> ll_done NewLineLogger" by (simp add: NewLineLogger_def)
  show ?thesis
    using writes_nonempty [OF nd assms(2)] assms(1) ex_text_scan
    by (simp add: NewLineLogger_def lineLogger_Close_def final_token_def dropCR_def)
qed

section \<open>Properties of the lab handle\<close>

subsection \<open>Close on a handle that was never started\<close>

lemma ex_New:
  "New False ''test.mlab'' [] (Inr ''/tmp/tmlab.1'') ex_world = (Return (Inr ex_new_lab), ex_new_world)"
  by (simp add: New_def ex_new_lab_def ex_new_world_def ex_world_def)

lemma IsClosed_iff: "MLab_IsClosed m = (closechan m = Closed)"
  by (cases "closechan m") (simp_all add: MLab_IsClosed_def)

text \<open>
  Claim C2, on a handle that \<open>New\<close> has just returned: \<open>Close\<close> finds the channel open,
  calls \<open>Kill\<close> on the \<open>nil\<close> process and panics; the statements after it do not run, and
  the id file is still there.
\<close>

theorem Close_before_Start_panics:
  "New False ''test.mlab'' [] (Inr ''/tmp/tmlab.1'') ex_world =
     (Return (Inr ex_new_lab), ex_new_world) \<and>
   MLab_Close ex_new_lab ex_new_world = (Panic NilPointerDereference, ex_new_lab, ex_new_world) \<and>
   files ex_new_world ''/tmp/tmlab.1'' = Some []"
  by (simp add: ex_New)
     (simp add: MLab_Close_def MLab_Log_def MLab_IsClosed_def Process_Kill_def ex_new_lab_def
        ex_new_world_def ex_world_def)

subsection \<open>The stages of doStart\<close>

lemma wire_stdio_fields:
  "closechan (wire_stdio m) = closechan m \<and> idfile (wire_stdio m) = idfile m \<and>
   lab_id (wire_stdio m) = lab_id m \<and> lab_t (wire_stdio m) = lab_t m \<and>
   netConfig (wire_stdio m) = netConfig m \<and>
   cmd_Stdout (cmd (wire_stdio m)) = cmd_Stdout (cmd m) \<and>
   Process (cmd (wire_stdio m)) = Process (cmd m)"
  by (simp add: wire_stdio_def Let_def)

lemma wire_stdio_readers:
  "list_all (\<lambda>b. br_once b = (br_c b = Closed)) (toBeClosed m) \<Longrightarrow>
   list_all (\<lambda>b. br_once b = (br_c b = Closed)) (toBeClosed (wire_stdio m))"
  by (simp add: wire_stdio_def Let_def newBlockingReader_def)

lemma wired_wire_stdio: "wired m w \<Longrightarrow> wired (wire_stdio m) w"
  using wire_stdio_fields [of m] wire_stdio_readers [of m]
  by (simp add: wired_def)

lemma await_ready_keeps:
  assumes "await_ready env m w = (r, m', w')"
  shows "w' = w \<and> cmd m' = cmd m \<and> closechan m' = closechan m \<and> toBeClosed m' = toBeClosed m \<and>
         idfile m' = idfile m \<and> lab_t m' = lab_t m \<and> (\<exists>e. r = Return e)"
  using assms
  by (auto simp: await_ready_def split: option.splits if_splits)

lemma wired_await_ready:
  assumes "wired m w" and "await_ready env m w = (r, m', w')"
  shows "wired m' w' \<and> (\<exists>e. r = Return e) \<and> closechan m' = closechan m"
  using await_ready_keeps [OF assms(2)] assms(1)
  by (simp add: wired_def)

lemma monitor_fires_Waiting:
  "monitor w = Waiting \<Longrightarrow> closechan m = Open \<Longrightarrow>
   monitor_fires m w = (Return (), m\<lparr>closechan := Closed\<rparr>, w\<lparr>monitor := Done\<rparr>)"
  by (simp add: monitor_fires_def close_chan_def)

lemma monitor_fires_idle:
  "monitor w \<noteq> Waiting \<Longrightarrow> monitor_fires m w = (Return (), m, w)"
  by (cases "monitor w") (simp_all add: monitor_fires_def)

lemma wired_monitor_fires:
  assumes "wired m w" and "monitor_fires m w = (r, m', w')"
  shows "wired m' w' \<and> r = Return () \<and> (closechan m = Closed \<longrightarrow> closechan m' = Closed) \<and>
         (monitor w = Waiting \<longrightarrow> closechan m' = Closed)"
proof (cases "monitor w = Waiting")
  case True
  with assms(1) have o: "closechan m = Open" and s: "cmd_Stdout (cmd m)"
    by (auto simp: wired_def)
  from assms(2) monitor_fires_Waiting [OF True o]
  have "r = Return ()" "m' = m\<lparr>closechan := Closed\<rparr>" "w' = w\<lparr>monitor := Done\<rparr>"
    by simp_all
  with assms(1) s True show ?thesis
    by (simp add: wired_def)
next
  case False
  from assms(2) monitor_fires_idle [OF False]
  have "r = Return ()" "m' = m" "w' = w" by simp_all
  with assms(1) False show ?thesis by simp
qed

lemma wired_Wait_returns:
  assumes "wired m w" and "Wait_returns m w = (r, m', w')"
  shows "wired m' w' \<and> r = Return () \<and> (closechan m = Closed \<longrightarrow> closechan m' = Closed)"
proof (cases "Wait_can_return m w")
  case True
  with assms(2) have "monitor_fires m w = (r, m', w')" by (simp add: Wait_returns_def)
  from wired_monitor_fires [OF assms(1) this] show ?thesis by simp
next
  case False
  with assms(2) have "r = Return ()" "m' = m" "w' = w" by (simp_all add: Wait_returns_def)
  with assms(1) show ?thesis by simp
qed

lemma StdoutPipe_wire:
  "Cmd_StdoutPipe os_pipe (cmd (wire_stdio m)) =
     (if cmd_Stdout (cmd m) then Inl (ExecError ''exec: Stdout already set'')
      else if Process (cmd m) \<noteq> None then Inl (ExecError ''exec: StdoutPipe after process started'')
      else (case os_pipe of
              Some err \<Rightarrow> Inl err
            | None \<Rightarrow> Inr ((cmd (wire_stdio m))\<lparr>cmd_Stdout := True\<rparr>)))"
  using wire_stdio_fields [of m] by (simp add: Cmd_StdoutPipe_def)

lemma doStart_refused:
  assumes "cmd_Stdout (cmd m) \<or> Process (cmd m) \<noteq> None \<or> pipe_result env \<noteq> None"
  shows "\<exists>err. MLab_doStart env m w = (Return (Some err), wire_stdio m, w)"
  using assms
  by (auto simp: MLab_doStart_def Let_def StdoutPipe_wire)

lemma doStart_spawn_fails:
  assumes "\<not> cmd_Stdout (cmd m)" and "Process (cmd m) = None" and "pipe_result env = None"
      and "spawn_result env = Inl err" and "closechan m = Open"
  shows "MLab_doStart env m w =
     (Return (Some err),
      (wire_stdio m)\<lparr>cmd := (cmd (wire_stdio m))\<lparr>cmd_Stdout := True\<rparr>, closechan := Closed\<rparr>, w)"
  using assms wire_stdio_fields [of m]
  by (simp add: MLab_doStart_def Let_def StdoutPipe_wire Cmd_Start_def close_chan_def)

lemma wire_stdio_toBeClosed:
  "toBeClosed (wire_stdio m) =
     (if Stdin m then toBeClosed m else toBeClosed m @ [newBlockingReader]) \<and>
   Stdin (wire_stdio m) = Stdin m"
  by (simp add: wire_stdio_def Let_def)

lemma spawned_can_return:
  "Wait_can_return (spawned env pid m) (spawned_world env m w) = fires_early env m w"
  using wire_stdio_toBeClosed [of m]
  by (simp add: Wait_can_return_def spawned_def spawned_world_def fires_early_def
      newBlockingReader_def nth_append)

lemma doStart_spawned:
  assumes "\<not> cmd_Stdout (cmd m)" and "Process (cmd m) = None" and "pipe_result env = None"
      and "spawn_result env = Inr pid" and "closechan m = Open"
  shows "MLab_doStart env m w =
     (if fires_early env m w
      then await_ready env ((spawned env pid m)\<lparr>closechan := Closed\<rparr>)
             ((spawned_world env m w)\<lparr>monitor := Done\<rparr>)
      else await_ready env (spawned env pid m) (spawned_world env m w))"
proof -
  have o: "closechan (spawned env pid m) = Open"
    using assms(5) wire_stdio_fields [of m] by (simp add: spawned_def)
  have w: "monitor (spawned_world env m w) = Waiting"
    by (simp add: spawned_world_def)
  have f: "monitor_fires (spawned env pid m) (spawned_world env m w) =
      (Return (), (spawned env pid m)\<lparr>closechan := Closed\<rparr>,
       (spawned_world env m w)\<lparr>monitor := Done\<rparr>)"
    using monitor_fires_Waiting [OF w o] .
  have g: "Wait_returns (spawned env pid m) (spawned_world env m w) =
      (if fires_early env m w
       then (Return (), (spawned env pid m)\<lparr>closechan := Closed\<rparr>,
             (spawned_world env m w)\<lparr>monitor := Done\<rparr>)
       else (Return (), spawned env pid m, spawned_world env m w))"
    by (simp add: Wait_returns_def spawned_can_return f)
  have d: "MLab_doStart env m w =
     (case Wait_returns (spawned env pid m) (spawned_world env m w) of
        (Return u, m4, w2) \<Rightarrow> await_ready env m4 w2
      | (Panic p, m4, w2) \<Rightarrow> (Panic p, m4, w2)
      | (Fatal msg, m4, w2) \<Rightarrow> (Fatal msg, m4, w2))"
    using assms wire_stdio_fields [of m]
    by (simp add: MLab_doStart_def Let_def StdoutPipe_wire Cmd_Start_def spawned_def
        spawned_world_def)
  show ?thesis
    unfolding d g by simp
qed

lemma wired_spawned:
  assumes "wired m w" and "closechan m = Open"
  shows "wired (spawned env pid m) (spawned_world env m w) \<and>
         wired ((spawned env pid m)\<lparr>closechan := Closed\<rparr>)
               ((spawned_world env m w)\<lparr>monitor := Done\<rparr>)"
  using wired_wire_stdio [OF assms(1)] assms(2) wire_stdio_fields [of m]
  by (simp add: wired_def spawned_def spawned_world_def)

lemma wired_doStart:
  assumes "wired m w" and "MLab_doStart env m w = (r, m', w')"
  shows "wired m' w' \<and> (\<exists>e. r = Return e) \<and> (closechan m = Closed \<longrightarrow> closechan m' = Closed)"
proof (cases "cmd_Stdout (cmd m) \<or> Process (cmd m) \<noteq> None \<or> pipe_result env \<noteq> None")
  case True
  from doStart_refused [OF True, of w] assms(2)
  have "m' = wire_stdio m" "w' = w" "\<exists>e. r = Return e" by auto
  then show ?thesis
    using wired_wire_stdio [OF assms(1)] wire_stdio_fields [of m] by simp
next
  case False
  then have a: "\<not> cmd_Stdout (cmd m)" "Process (cmd m) = None" "pipe_result env = None"
    by auto
  with assms(1) have o: "closechan m = Open" and n: "monitor w = NotStarted"
    by (auto simp: wired_def)
  show ?thesis
  proof (cases "spawn_result env")
    case (Inl err)
    from doStart_spawn_fails [OF a Inl o, of w] assms(2)
    have "r = Return (Some err)" "w' = w"
      "m' = (wire_stdio m)\<lparr>cmd := (cmd (wire_stdio m))\<lparr>cmd_Stdout := True\<rparr>, closechan := Closed\<rparr>"
      by simp_all
    then show ?thesis
      using wired_wire_stdio [OF assms(1)] n by (simp add: wired_def)
  next
    case (Inr pid)
    note d = doStart_spawned [OF a Inr o, of w]
    note ws = wired_spawned [OF assms(1) o, of env pid]
    show ?thesis
    proof (cases "fires_early env m w")
      case True
      with d assms(2) have
        "await_ready env ((spawned env pid m)\<lparr>closechan := Closed\<rparr>)
             ((spawned_world env m w)\<lparr>monitor := Done\<rparr>) = (r, m', w')"
        by simp
      from wired_await_ready [OF _ this] ws o show ?thesis by simp
    next
      case False
      with d assms(2) have
        "await_ready env (spawned env pid m) (spawned_world env m w) = (r, m', w')"
        by simp
      from wired_await_ready [OF _ this] ws o show ?thesis by simp
    qed
  qed
qed

subsection \<open>Close, and what every history preserves\<close>

lemma Start_doStart:
  "snd (MLab_Start env m w) = snd (MLab_doStart env m w) \<and>
   (panic_of (fst (MLab_Start env m w)) = panic_of (fst (MLab_doStart env m w)))"
proof -
  obtain r m' w' where d: "MLab_doStart env m w = (r, m', w')"
    by (cases "MLab_doStart env m w")
  show ?thesis
  proof (cases r)
    case (Return e)
    then show ?thesis by (cases e) (simp_all add: MLab_Start_def d)
  qed (simp_all add: MLab_Start_def d)
qed

lemma close_all_ok:
  "list_all (\<lambda>b. br_once b = (br_c b = Closed)) bs \<Longrightarrow>
   \<exists>bs'. close_all bs = Inr bs' \<and> list_all (\<lambda>b. br_once b \<and> br_c b = Closed) bs'"
proof (induction bs)
  case Nil
  then show ?case by simp
next
  case (Cons b bs)
  then obtain bs' where t: "close_all bs = Inr bs'"
      and r: "list_all (\<lambda>b. br_once b \<and> br_c b = Closed) bs'"
    by auto
  from Cons.prems have i: "br_once b = (br_c b = Closed)" by simp
  show ?case
  proof (cases "br_once b")
    case True
    with i t r show ?thesis by (simp add: Close_released)
  next
    case False
    with i have "br_c b = Open" by (cases "br_c b") simp_all
    with False t r show ?thesis by (simp add: Close_fresh)
  qed
qed

lemma Close_unstarted:
  assumes "closechan m = Open" and "Process (cmd m) = None"
  shows "\<exists>w2. MLab_Close m w = (Panic NilPointerDereference, m, w2) \<and> files w2 = files w \<and>
              monitor w2 = monitor w"
  using assms
  by (simp add: MLab_Close_def Let_def MLab_IsClosed_def Process_Kill_def MLab_Log_def
      split: option.split)

lemma Close_started:
  assumes "closechan m = Closed \<or> Process (cmd m) \<noteq> None"
      and "list_all (\<lambda>b. br_once b = (br_c b = Closed)) (toBeClosed m)"
  shows "fst (MLab_Close m w) = Return None \<and>
         (\<exists>bs. fst (snd (MLab_Close m w)) = m\<lparr>toBeClosed := bs\<rparr> \<and>
               list_all (\<lambda>b. br_once b \<and> br_c b = Closed) bs) \<and>
         files (snd (snd (MLab_Close m w))) (idfile m) = None \<and>
         monitor (snd (snd (MLab_Close m w))) = monitor w"
proof -
  from close_all_ok [OF assms(2)] obtain bs where
    c: "close_all (toBeClosed m) = Inr bs" and r: "list_all (\<lambda>b. br_once b \<and> br_c b = Closed) bs"
    by blast
  show ?thesis
  proof (cases "closechan m")
    case Closed
    with c r show ?thesis
      by (auto simp: MLab_Close_def Let_def MLab_IsClosed_def MLab_Log_def os_Remove_def
          split: option.split)
  next
    case Open
    with assms(1) obtain pid where "Process (cmd m) = Some pid" by auto
    with Open c r show ?thesis
      by (auto simp: MLab_Close_def Let_def MLab_IsClosed_def MLab_Log_def Process_Kill_def
          os_Remove_def split: option.split)
  qed
qed

text \<open>
  Where \<open>Close\<close> is safe: it panics exactly on a handle whose channel is open and whose
  process was never spawned; on every other handle it returns no error and the id file is
  gone afterwards.
\<close>

lemma Close_outcome:
  assumes "list_all (\<lambda>b. br_once b = (br_c b = Closed)) (toBeClosed m)"
  shows "fst (MLab_Close m w) =
           (if closechan m = Open \<and> Process (cmd m) = None then Panic NilPointerDereference
            else Return None) \<and>
         files (snd (snd (MLab_Close m w))) (idfile m) =
           (if closechan m = Open \<and> Process (cmd m) = None then files w (idfile m) else None)"
proof (cases "closechan m = Open \<and> Process (cmd m) = None")
  case True
  then have o: "closechan m = Open" and n: "Process (cmd m) = None" by simp_all
  from Close_unstarted [OF o n, of w] True show ?thesis by auto
next
  case False
  then have "closechan m = Closed \<or> Process (cmd m) \<noteq> None"
    by (cases "closechan m") simp_all
  from Close_started [OF this assms, of w] False show ?thesis by simp
qed

lemma released_inv:
  "list_all (\<lambda>b. br_once b \<and> br_c b = Closed) bs \<Longrightarrow>
   list_all (\<lambda>b. br_once b = (br_c b = Closed)) bs"
  by (induction bs) simp_all

text \<open>A second \<open>Close\<close> after one that returned: it returns as well, and the file stays gone.\<close>

lemma Close_twice:
  assumes "closechan m = Closed \<or> Process (cmd m) \<noteq> None"
      and "list_all (\<lambda>b. br_once b = (br_c b = Closed)) (toBeClosed m)"
      and "MLab_Close m w = (r, m1, w1)"
  shows "r = Return None \<and> fst (MLab_Close m1 w1) = Return None \<and>
         files (snd (snd (MLab_Close m1 w1))) (idfile m) = None"
proof -
  from Close_started [OF assms(1,2), of w] assms(3) obtain bs where
    r: "r = Return None" and m1: "m1 = m\<lparr>toBeClosed := bs\<rparr>" and
    b: "list_all (\<lambda>b. br_once b \<and> br_c b = Closed) bs"
    by auto
  from assms(1) m1 have c: "closechan m1 = Closed \<or> Process (cmd m1) \<noteq> None"
    by simp
  from released_inv [OF b] m1
  have i: "list_all (\<lambda>b. br_once b = (br_c b = Closed)) (toBeClosed m1)"
    by simp
  from Close_started [OF c i, of w1] r m1 show ?thesis by simp
qed

lemma wired_Close:
  assumes "wired m w" and "MLab_Close m w = (r, m', w')"
  shows "wired m' w' \<and> closechan m' = closechan m \<and>
         (r = Return None \<or> r = Panic NilPointerDereference)"
proof (cases "closechan m = Closed \<or> Process (cmd m) \<noteq> None")
  case True
  from assms(1) have i: "list_all (\<lambda>b. br_once b = (br_c b = Closed)) (toBeClosed m)"
    by (simp add: wired_def)
  from Close_started [OF True i, of w] assms(2) obtain bs where
    "r = Return None" "m' = m\<lparr>toBeClosed := bs\<rparr>"
    "list_all (\<lambda>b. br_once b \<and> br_c b = Closed) bs" "monitor w' = monitor w"
    by auto
  with assms(1) released_inv [of bs] show ?thesis
    by (simp add: wired_def)
next
  case False
  then have "closechan m = Open" "Process (cmd m) = None"
    by (cases "closechan m", simp_all)
  from Close_unstarted [OF this, of w] assms(2) obtain w2 where
    "r = Panic NilPointerDereference" "m' = m" "monitor w2 = monitor w" "w' = w2"
    by auto
  with assms(1) show ?thesis by (simp add: wired_def)
qed

lemma wired_step:
  assumes "wired m w" and "step e m w = (p, m', w')"
  shows "wired m' w' \<and> p \<noteq> Some CloseOfClosedChannel \<and>
         (closechan m = Closed \<longrightarrow> closechan m' = Closed)"
proof (cases e)
  case (EvSet i out e lg)
  with assms(2) have "p = None" "w' = w"
    "m' = m\<lparr>Logger := lg, Stdin := i, Stdout := out, Stderr := e\<rparr>"
    by simp_all
  with assms(1) show ?thesis by (simp add: wired_def)
next
  case (EvStart env)
  obtain r m1 w1 where d: "MLab_doStart env m w = (r, m1, w1)"
    by (cases "MLab_doStart env m w")
  from Start_doStart [of env m w] d assms(2) EvStart
  have "m' = m1" "w' = w1" "p = panic_of r"
    by (auto split: prod.splits)
  with wired_doStart [OF assms(1) d] show ?thesis by auto
next
  case EvExit
  with assms(2) have "p = None" "m' = m" "monitor w' = monitor w"
    by (auto split: if_splits)
  with assms(1) show ?thesis by (simp add: wired_def)
next
  case EvStdinDone
  with assms(2) have "p = None" "m' = m" "monitor w' = monitor w"
    by auto
  with assms(1) show ?thesis by (simp add: wired_def)
next
  case EvWait
  obtain r m1 w1 where d: "Wait_returns m w = (r, m1, w1)"
    by (cases "Wait_returns m w")
  with assms(2) EvWait have "m' = m1" "w' = w1" "p = panic_of r" by auto
  with wired_Wait_returns [OF assms(1) d] show ?thesis by auto
next
  case EvClose
  obtain r m1 w1 where d: "MLab_Close m w = (r, m1, w1)"
    by (cases "MLab_Close m w")
  with assms(2) EvClose have "m' = m1" "w' = w1" "p = panic_of r" by auto
  with wired_Close [OF assms(1) d] show ?thesis by auto
qed

lemma wired_run:
  assumes "wired m w" and "run evs m w = (p, m', w')"
  shows "wired m' w' \<and> p \<noteq> Some CloseOfClosedChannel \<and>
         (closechan m = Closed \<longrightarrow> closechan m' = Closed)"
  using assms
proof (induction evs arbitrary: m w)
  case Nil
  then show ?case by simp
next
  case (Cons e evs)
  obtain q m1 w1 where s: "step e m w = (q, m1, w1)"
    by (cases "step e m w")
  note ws = wired_step [OF Cons.prems(1) s]
  show ?case
  proof (cases q)
    case None
    with s Cons.prems(2) have "run evs m1 w1 = (p, m', w')" by simp
    from Cons.IH [OF _ this] ws show ?thesis by simp
  next
    case (Some a)
    with s Cons.prems(2) have "p = q" "m' = m1" "w' = w1" by simp_all
    with ws show ?thesis by simp
  qed
qed

lemma wired_New:
  assumes "New tb script args tempfile w0 = (Return (Inr lab), w)" and "monitor w0 = NotStarted"
  shows "wired lab w \<and> closechan lab = Open \<and> Process (cmd lab) = None \<and>
         \<not> cmd_Stdout (cmd lab) \<and> (\<exists>name. tempfile = Inr name \<and> idfile lab = name \<and>
            files w name = Some [])"
  using assms
  by (auto simp: New_def wired_def split: sum.splits if_splits)

subsection \<open>The identifier\<close>

lemma ex_TrimSpace: "TrimSpace (''c0ffee'' @ [CHR 0x0A]) = ''c0ffee''"
  by (simp add: TrimSpace_def TrimRight_def DecodeLastRune_def IsSpace_def Let_def)

text \<open>White space outside ASCII is trimmed as well: here two no-break spaces, U+00A0.\<close>

lemma ex_TrimSpace_nbsp:
  "TrimSpace ([CHR 0xC2, CHR 0xA0] @ ''c0ffee'' @ [CHR 0xC2, CHR 0xA0, CHR 0x0A]) = ''c0ffee''"
  by (simp add: TrimSpace_def TrimRight_def DecodeLastRune_def IsSpace_def Let_def RuneStart_def)

lemma ex_TrimSpace_empty: "TrimSpace [] = []"
  by (simp add: TrimSpace_def TrimRight_def)

lemma ex_wire: "wire_stdio ex_new_lab =
    ex_new_lab\<lparr>cmd := (cmd ex_new_lab)\<lparr>cmd_Stdin := True\<rparr>, toBeClosed := [newBlockingReader]\<rparr>"
  by (simp add: wire_stdio_def ex_new_lab_def Let_def)

lemma ex_wired: "wired ex_new_lab ex_new_world \<and> wired ex_new_lab ex_world"
  by (simp add: wired_def ex_new_lab_def ex_new_world_def ex_world_def)

lemma ex_doStart:
  "MLab_doStart ex_env ex_new_lab ex_new_world = (Return None, ex_lab, ex_started_world)"
proof -
  have a: "\<not> cmd_Stdout (cmd ex_new_lab)" "Process (cmd ex_new_lab) = None"
    "pipe_result ex_env = None" "spawn_result ex_env = Inr 4242" "closechan ex_new_lab = Open"
    by (simp_all add: ex_new_lab_def ex_env_def)
  have s: "spawned ex_env 4242 ex_new_lab = ex_lab\<lparr>lab_id := []\<rparr>"
    by (simp add: spawned_def ex_wire) (simp add: ex_new_lab_def ex_lab_def)
  have w: "spawned_world ex_env ex_new_lab ex_new_world = ex_started_world"
    by (simp add: spawned_world_def ex_env_def ex_new_world_def ex_started_world_def
        ex_new_lab_def ex_world_def)
  have e: "\<not> fires_early ex_env ex_new_lab ex_new_world"
    by (simp add: fires_early_def ex_env_def)
  have r: "await_ready ex_env (ex_lab\<lparr>lab_id := []\<rparr>) ex_started_world =
      (Return None, ex_lab, ex_started_world)"
    by (simp add: await_ready_def ex_env_def MLab_IsClosed_def ex_lab_def ex_started_world_def
        ex_TrimSpace [simplified])
  show ?thesis
    using doStart_spawned [OF a, of ex_new_world] e by (simp add: s w r)
qed

lemma spawned_fields:
  "idfile (spawned env pid m) = idfile m \<and> lab_id (spawned env pid m) = lab_id m \<and>
   closechan (spawned env pid m) = closechan m \<and> lab_t (spawned env pid m) = lab_t m"
  using wire_stdio_fields [of m] by (simp add: spawned_def)

lemma spawned_world_file:
  "files (spawned_world env m w) (idfile m) =
     (case lab_writes env of None \<Rightarrow> files w (idfile m) | Some s \<Rightarrow> Some s)"
  by (simp add: spawned_world_def split: option.split)

lemma await_ready_unreadable:
  assumes "files w (idfile m) = None"
  shows "\<exists>err. await_ready env m w = (Return (Some err), m, w)"
  using assms by (simp add: await_ready_def split: option.split)

lemma doStart_reads_id:
  assumes "\<not> cmd_Stdout (cmd m)" and "Process (cmd m) = None" and "pipe_result env = None"
      and "spawn_result env = Inr pid" and "closechan m = Open"
      and "copy_result env = None" and "\<not> fires_early env m w"
  shows "MLab_doStart env m w =
     (case (case lab_writes env of None \<Rightarrow> files w (idfile m) | Some s \<Rightarrow> Some s) of
        None \<Rightarrow> (Return (Some (ReadError (idfile m))), spawned env pid m, spawned_world env m w)
      | Some content \<Rightarrow>
          (Return None, (spawned env pid m)\<lparr>lab_id := TrimSpace content\<rparr>,
           spawned_world env m w))"
  using doStart_spawned [OF assms(1-5), of w] assms(5-7) spawned_fields [of env pid m]
    spawned_world_file [of env m w]
  by (simp add: await_ready_def IsClosed_iff split: option.split)

text \<open>Whatever path it takes, \<open>doStart\<close> fails when the id file is not there to be read.\<close>

lemma doStart_unreadable:
  assumes "wired m w" and "lab_writes env = None" and "files w (idfile m) = None"
  shows "\<exists>err m' w'. MLab_doStart env m w = (Return (Some err), m', w') \<and>
           lab_id m' = lab_id m \<and> lab_t m' = lab_t m"
proof (cases "cmd_Stdout (cmd m) \<or> Process (cmd m) \<noteq> None \<or> pipe_result env \<noteq> None")
  case True
  from doStart_refused [OF True, of w] obtain err where
    "MLab_doStart env m w = (Return (Some err), wire_stdio m, w)" by blast
  then show ?thesis using wire_stdio_fields [of m] by simp
next
  case False
  then have a: "\<not> cmd_Stdout (cmd m)" "Process (cmd m) = None" "pipe_result env = None"
    by auto
  with assms(1) have o: "closechan m = Open"
    by (auto simp: wired_def)
  show ?thesis
  proof (cases "spawn_result env")
    case (Inl err)
    from doStart_spawn_fails [OF a Inl o, of w] show ?thesis
      using wire_stdio_fields [of m] by simp
  next
    case (Inr pid)
    have f: "files (spawned_world env m w) (idfile m) = None"
      using assms(2,3) by (simp add: spawned_world_file)
    note sf = spawned_fields [of env pid m]
    show ?thesis
    proof (cases "fires_early env m w")
      case True
      let ?m = "(spawned env pid m)\<lparr>closechan := Closed\<rparr>"
      let ?w = "(spawned_world env m w)\<lparr>monitor := Done\<rparr>"
      have "files ?w (idfile ?m) = None" using f sf by simp
      from await_ready_unreadable [OF this, of env] obtain err where
        "await_ready env ?m ?w = (Return (Some err), ?m, ?w)" by blast
      with doStart_spawned [OF a Inr o, of w] True sf show ?thesis by simp
    next
      case False
      have "files (spawned_world env m w) (idfile (spawned env pid m)) = None"
        using f sf by simp
      from await_ready_unreadable [OF this, of env] obtain err where
        "await_ready env (spawned env pid m) (spawned_world env m w) =
           (Return (Some err), spawned env pid m, spawned_world env m w)" by blast
      with doStart_spawned [OF a Inr o, of w] False sf show ?thesis by simp
    qed
  qed
qed

text \<open>
  Claim C4, as the specification states it, at a concrete input: the lab starts and leaves
  the id file empty, as \<open>New\<close> created it; \<open>Start\<close> returns no error and the identifier
  is the empty string.
\<close>

theorem doStart_empty_id_counterexample:
  "files ex_new_world (idfile ex_new_lab) = Some [] \<and>
   TrimSpace [] = [] \<and>
   MLab_doStart ex_env_noid ex_new_lab ex_new_world =
     (Return None, ex_lab\<lparr>lab_id := []\<rparr>,
      ex_new_world\<lparr>monitor := Waiting, stdin_copy := FromGate 0\<rparr>) \<and>
   fst (MLab_Start ex_env_noid ex_new_lab ex_new_world) = Return None"
proof -
  have a: "\<not> cmd_Stdout (cmd ex_new_lab)" "Process (cmd ex_new_lab) = None"
    "pipe_result ex_env_noid = None" "spawn_result ex_env_noid = Inr 4242"
    "closechan ex_new_lab = Open" "copy_result ex_env_noid = None"
    "\<not> fires_early ex_env_noid ex_new_lab ex_new_world"
    by (simp_all add: ex_new_lab_def ex_env_def ex_env_noid_def fires_early_def)
  have f: "files ex_new_world (idfile ex_new_lab) = Some []"
    by (simp add: ex_new_world_def ex_new_lab_def)
  have s: "spawned ex_env_noid 4242 ex_new_lab = ex_lab\<lparr>lab_id := []\<rparr>"
    by (simp add: spawned_def ex_wire) (simp add: ex_new_lab_def ex_lab_def)
  have w: "spawned_world ex_env_noid ex_new_lab ex_new_world =
      ex_new_world\<lparr>monitor := Waiting, stdin_copy := FromGate 0\<rparr>"
    by (simp add: spawned_world_def ex_env_noid_def ex_env_def ex_new_lab_def ex_new_world_def
        ex_world_def)
  have n: "lab_writes ex_env_noid = None" by (simp add: ex_env_noid_def)
  have d: "MLab_doStart ex_env_noid ex_new_lab ex_new_world =
     (Return None, ex_lab\<lparr>lab_id := []\<rparr>,
      ex_new_world\<lparr>monitor := Waiting, stdin_copy := FromGate 0\<rparr>)"
    by (simp add: doStart_reads_id [OF a] n f s w ex_TrimSpace_empty)
  show ?thesis
    using f ex_TrimSpace_empty d by (simp add: MLab_Start_def)
qed

text \<open>
  Claim C4, amended. On every handle that satisfies \<open>wired\<close> (as every handle does that
  \<open>New\<close> returned, whatever has happened to it since): if the id file cannot be read,
  \<open>doStart\<close> returns an error and leaves the identifier as it was, and \<open>Start\<close> returns that
  error or stops the test. Contents that trim to the empty string are not a failure: when
  \<open>doStart\<close> gets as far as reading the file (the pipe and the spawn succeed, the copy
  succeeds, the channel is not closed before the timer fires) and the file can be read,
  \<open>doStart\<close> and \<open>Start\<close> return no error and the identifier is the content without its
  leading and trailing white space, whatever that is.
\<close>

theorem doStart_identifier:
  assumes "wired m w"
  shows "(lab_writes env = None \<and> files w (idfile m) = None \<longrightarrow>
            (\<exists>err. fst (MLab_doStart env m w) = Return (Some err) \<and>
                   fst (MLab_Start env m w) =
                     (if lab_t m then Fatal ''Failed starting MLab'' else Return (Some err))) \<and>
            lab_id (fst (snd (MLab_doStart env m w))) = lab_id m) \<and>
         (\<not> cmd_Stdout (cmd m) \<and> pipe_result env = None \<and> spawn_result env = Inr pid \<and>
          copy_result env = None \<and> \<not> (exits_early env \<and> Stdin m \<and> stdin_done w) \<longrightarrow>
            (\<forall>content.
               (case lab_writes env of None \<Rightarrow> files w (idfile m) | Some s \<Rightarrow> Some s) =
                 Some content \<longrightarrow>
               fst (MLab_doStart env m w) = Return None \<and>
               fst (MLab_Start env m w) = Return None \<and>
               lab_id (fst (snd (MLab_doStart env m w))) = TrimSpace content))"
proof -
  have unreadable: "lab_writes env = None \<and> files w (idfile m) = None \<longrightarrow>
            (\<exists>err. fst (MLab_doStart env m w) = Return (Some err) \<and>
                   fst (MLab_Start env m w) =
                     (if lab_t m then Fatal ''Failed starting MLab'' else Return (Some err))) \<and>
            lab_id (fst (snd (MLab_doStart env m w))) = lab_id m"
  proof
    assume u: "lab_writes env = None \<and> files w (idfile m) = None"
    then have u1: "lab_writes env = None" and u2: "files w (idfile m) = None" by simp_all
    from doStart_unreadable [OF assms u1 u2] obtain err m' w' where
      d: "MLab_doStart env m w = (Return (Some err), m', w')"
      and i: "lab_id m' = lab_id m" and t: "lab_t m' = lab_t m"
      by blast
    from d have f: "fst (MLab_doStart env m w) = Return (Some err)"
      by simp
    have "fst (MLab_Start env m w) =
        (if lab_t m then Fatal ''Failed starting MLab'' else Return (Some err))"
      by (simp add: MLab_Start_def d t)
    with f have e: "\<exists>err. fst (MLab_doStart env m w) = Return (Some err) \<and>
                   fst (MLab_Start env m w) =
                     (if lab_t m then Fatal ''Failed starting MLab'' else Return (Some err))"
      by blast
    from d i have "lab_id (fst (snd (MLab_doStart env m w))) = lab_id m" by simp
    with e show "(\<exists>err. fst (MLab_doStart env m w) = Return (Some err) \<and>
                   fst (MLab_Start env m w) =
                     (if lab_t m then Fatal ''Failed starting MLab'' else Return (Some err))) \<and>
            lab_id (fst (snd (MLab_doStart env m w))) = lab_id m"
      by simp
  qed
  have readable: "\<not> cmd_Stdout (cmd m) \<and> pipe_result env = None \<and> spawn_result env = Inr pid \<and>
          copy_result env = None \<and> \<not> (exits_early env \<and> Stdin m \<and> stdin_done w) \<longrightarrow>
            (\<forall>content.
               (case lab_writes env of None \<Rightarrow> files w (idfile m) | Some s \<Rightarrow> Some s) =
                 Some content \<longrightarrow>
               fst (MLab_doStart env m w) = Return None \<and>
               fst (MLab_Start env m w) = Return None \<and>
               lab_id (fst (snd (MLab_doStart env m w))) = TrimSpace content)"
  proof (intro impI allI)
    fix content
    assume h: "\<not> cmd_Stdout (cmd m) \<and> pipe_result env = None \<and> spawn_result env = Inr pid \<and>
          copy_result env = None \<and> \<not> (exits_early env \<and> Stdin m \<and> stdin_done w)"
      and c: "(case lab_writes env of None \<Rightarrow> files w (idfile m) | Some s \<Rightarrow> Some s) =
                 Some content"
    from h have a: "\<not> cmd_Stdout (cmd m)" "pipe_result env = None" "spawn_result env = Inr pid"
      "copy_result env = None" "\<not> fires_early env m w"
      by (simp_all add: fires_early_def)
    from assms a(1) have p: "Process (cmd m) = None" and o: "closechan m = Open"
      by (auto simp: wired_def)
    note d = doStart_reads_id [OF a(1) p a(2) a(3) o a(4) a(5)]
    show "fst (MLab_doStart env m w) = Return None \<and>
               fst (MLab_Start env m w) = Return None \<and>
               lab_id (fst (snd (MLab_doStart env m w))) = TrimSpace content"
      using c by (simp add: d MLab_Start_def)
  qed
  from unreadable readable show ?thesis by (rule conjI)
qed

theorem doStart_identifier_witness:
  "wired ex_new_lab ex_world \<and>
   lab_writes ex_env_noid = None \<and> files ex_world (idfile ex_new_lab) = None \<and>
   fst (MLab_doStart ex_env_noid ex_new_lab ex_world) =
     Return (Some (ReadError ''/tmp/tmlab.1'')) \<and>
   wired ex_new_lab ex_new_world \<and>
   \<not> cmd_Stdout (cmd ex_new_lab) \<and> pipe_result ex_env = None \<and>
   spawn_result ex_env = Inr 4242 \<and> copy_result ex_env = None \<and> \<not> exits_early ex_env \<and>
   lab_writes ex_env = Some (''c0ffee'' @ [CHR 0x0A]) \<and>
   fst (MLab_doStart ex_env ex_new_lab ex_new_world) = Return None \<and>
   lab_id (fst (snd (MLab_doStart ex_env ex_new_lab ex_new_world))) = ''c0ffee''"
proof -
  have a: "\<not> cmd_Stdout (cmd ex_new_lab)" "Process (cmd ex_new_lab) = None"
    "pipe_result ex_env = None" "spawn_result ex_env = Inr 4242"
    "closechan ex_new_lab = Open" "copy_result ex_env = None" "\<not> exits_early ex_env"
    by (simp_all add: ex_new_lab_def ex_env_def)
  have b: "pipe_result ex_env_noid = None" "spawn_result ex_env_noid = Inr 4242"
    "copy_result ex_env_noid = None" "\<not> fires_early ex_env_noid ex_new_lab ex_world"
    by (simp_all add: ex_env_def ex_env_noid_def fires_early_def)
  have l: "lab_writes ex_env = Some (''c0ffee'' @ [CHR 0x0A])" by (simp add: ex_env_def)
  have n: "lab_writes ex_env_noid = None" by (simp add: ex_env_noid_def)
  have f: "files ex_world (idfile ex_new_lab) = None" by (simp add: ex_world_def)
  have i: "idfile ex_new_lab = ''/tmp/tmlab.1''" by (simp add: ex_new_lab_def)
  have r: "fst (MLab_doStart ex_env_noid ex_new_lab ex_world) =
     Return (Some (ReadError ''/tmp/tmlab.1''))"
    using f by (simp add: doStart_reads_id [OF a(1) a(2) b(1) b(2) a(5) b(3) b(4)] n i)
  have w1: "wired ex_new_lab ex_world" and w2: "wired ex_new_lab ex_new_world"
    using ex_wired by simp_all
  show ?thesis
    using a l n f r w1 w2 ex_TrimSpace
      doStart_identifier [OF w1, of ex_env_noid 4242]
      doStart_identifier [OF w2, of ex_env 4242]
    by simp
qed

subsection \<open>The completion signal\<close>

text \<open>
  What holds of the signal along every history of a handle returned by \<open>New\<close>: no step
  closes a channel that is closed already; the channel starts open, and once \<open>IsClosed\<close>
  is true it stays true; a \<open>Start\<close> whose spawn fails returns that error with the signal
  fired and no waiting goroutine; while the goroutine waits the signal is pending, and it
  fires when \<open>Wait\<close> can return and the goroutine gets its turn; \<open>IsClosed\<close> is true exactly
  when the channel is closed.
\<close>

lemma closechan_closed_once:
  assumes "New tb script args tempfile w0 = (Return (Inr lab), w)" and "monitor w0 = NotStarted"
  shows "(\<forall>evs. fst (run evs lab w) \<noteq> Some CloseOfClosedChannel) \<and>
         \<not> MLab_IsClosed lab \<and>
         (\<forall>evs evs' m1 w1.
            run evs lab w = (None, m1, w1) \<and> MLab_IsClosed m1 \<longrightarrow>
              MLab_IsClosed (fst (snd (run evs' m1 w1)))) \<and>
         (\<forall>evs m1 w1 env err.
            run evs lab w = (None, m1, w1) \<and> \<not> cmd_Stdout (cmd m1) \<and>
            pipe_result env = None \<and> spawn_result env = Inl err \<longrightarrow>
              fst (MLab_doStart env m1 w1) = Return (Some err) \<and>
              MLab_IsClosed (fst (snd (MLab_doStart env m1 w1))) \<and>
              monitor (snd (snd (MLab_doStart env m1 w1))) = NotStarted) \<and>
         (\<forall>evs m1 w1.
            run evs lab w = (None, m1, w1) \<and> monitor w1 = Waiting \<longrightarrow>
              \<not> MLab_IsClosed m1 \<and>
              (Wait_can_return m1 w1 \<longrightarrow> MLab_IsClosed (fst (snd (Wait_returns m1 w1))))) \<and>
         (\<forall>m. MLab_IsClosed m = (closechan m = Closed))"
proof -
  note n = wired_New [OF assms]
  then have wl: "wired lab w" by simp
  have reach: "\<And>evs p m1 w1. run evs lab w = (p, m1, w1) \<Longrightarrow>
      wired m1 w1 \<and> p \<noteq> Some CloseOfClosedChannel"
    using wired_run [OF wl] by blast
  have 1: "\<forall>evs. fst (run evs lab w) \<noteq> Some CloseOfClosedChannel"
  proof
    fix evs
    obtain p m1 w1 where "run evs lab w = (p, m1, w1)" by (cases "run evs lab w")
    with reach [OF this] show "fst (run evs lab w) \<noteq> Some CloseOfClosedChannel" by simp
  qed
  have 2: "\<not> MLab_IsClosed lab" using n by (simp add: IsClosed_iff)
  have 3: "\<forall>evs evs' m1 w1.
            run evs lab w = (None, m1, w1) \<and> MLab_IsClosed m1 \<longrightarrow>
              MLab_IsClosed (fst (snd (run evs' m1 w1)))"
  proof (intro allI impI)
    fix evs evs' m1 w1
    assume a: "run evs lab w = (None, m1, w1) \<and> MLab_IsClosed m1"
    then have w1: "wired m1 w1" using reach by blast
    obtain p m2 w2 where r: "run evs' m1 w1 = (p, m2, w2)" by (cases "run evs' m1 w1")
    from wired_run [OF w1 r] a r show "MLab_IsClosed (fst (snd (run evs' m1 w1)))"
      by (simp add: IsClosed_iff)
  qed
  have 4: "\<forall>evs m1 w1 env err.
            run evs lab w = (None, m1, w1) \<and> \<not> cmd_Stdout (cmd m1) \<and>
            pipe_result env = None \<and> spawn_result env = Inl err \<longrightarrow>
              fst (MLab_doStart env m1 w1) = Return (Some err) \<and>
              MLab_IsClosed (fst (snd (MLab_doStart env m1 w1))) \<and>
              monitor (snd (snd (MLab_doStart env m1 w1))) = NotStarted"
  proof (intro allI impI)
    fix evs m1 w1 and env :: start_env and err
    assume a: "run evs lab w = (None, m1, w1) \<and> \<not> cmd_Stdout (cmd m1) \<and>
            pipe_result env = None \<and> spawn_result env = Inl err"
    then have w1: "wired m1 w1" using reach by blast
    with a have s: "monitor w1 = NotStarted" "closechan m1 = Open" "Process (cmd m1) = None"
      by (auto simp: wired_def)
    from a have b: "\<not> cmd_Stdout (cmd m1)" "pipe_result env = None" "spawn_result env = Inl err"
      by simp_all
    show "fst (MLab_doStart env m1 w1) = Return (Some err) \<and>
              MLab_IsClosed (fst (snd (MLab_doStart env m1 w1))) \<and>
              monitor (snd (snd (MLab_doStart env m1 w1))) = NotStarted"
      using doStart_spawn_fails [OF b(1) s(3) b(2) b(3) s(2), of w1] s(1)
      by (simp add: IsClosed_iff)
  qed
  have 5: "\<forall>evs m1 w1.
            run evs lab w = (None, m1, w1) \<and> monitor w1 = Waiting \<longrightarrow>
              \<not> MLab_IsClosed m1 \<and>
              (Wait_can_return m1 w1 \<longrightarrow> MLab_IsClosed (fst (snd (Wait_returns m1 w1))))"
  proof (intro allI impI)
    fix evs m1 w1
    assume a: "run evs lab w = (None, m1, w1) \<and> monitor w1 = Waiting"
    then have w1: "wired m1 w1" using reach by blast
    with a have o: "closechan m1 = Open" by (auto simp: wired_def)
    from a have mw: "monitor w1 = Waiting" by simp
    show "\<not> MLab_IsClosed m1 \<and>
          (Wait_can_return m1 w1 \<longrightarrow> MLab_IsClosed (fst (snd (Wait_returns m1 w1))))"
      using monitor_fires_Waiting [OF mw o] o by (simp add: IsClosed_iff Wait_returns_def)
  qed
  have 6: "\<forall>m. MLab_IsClosed m = (closechan m = Closed)"
    by (simp add: IsClosed_iff)
  from 1 2 3 4 5 6 show ?thesis by blast
qed

text \<open>
  But while the blocking reader that \<open>doStart\<close> gave the process as its standard input is
  open, \<open>Wait\<close> does not return, whether the process has exited or not.
\<close>

lemma gate_held_wire:
  assumes "gate_held m w"
  shows "gate_held (wire_stdio m) w"
  using assms wire_stdio_toBeClosed [of m]
  by (auto simp: gate_held_def nth_append split: stdin_copy.splits)

lemma await_ready_Stdin:
  assumes "await_ready env m w = (r, m', w')"
  shows "Stdin m' = Stdin m"
  using assms
  by (auto simp: await_ready_def split: option.splits if_splits)

lemma gate_held_spawned:
  assumes "\<not> Stdin m"
  shows "gate_held (spawned env pid m) (spawned_world env m w)"
  using assms wire_stdio_toBeClosed [of m]
  by (simp add: gate_held_def spawned_def spawned_world_def newBlockingReader_def nth_append)

lemma gate_held_doStart:
  assumes "gate_held m w" and "wired m w" and "MLab_doStart env m w = (r, m', w')"
  shows "gate_held m' w'"
proof (cases "cmd_Stdout (cmd m) \<or> Process (cmd m) \<noteq> None \<or> pipe_result env \<noteq> None")
  case True
  from doStart_refused [OF True, of w] assms(3)
  have "m' = wire_stdio m" "w' = w" by auto
  with gate_held_wire [OF assms(1)] show ?thesis by simp
next
  case False
  then have a: "\<not> cmd_Stdout (cmd m)" "Process (cmd m) = None" "pipe_result env = None"
    by auto
  with assms(2) have o: "closechan m = Open"
    by (auto simp: wired_def)
  from assms(1) have ns: "\<not> Stdin m" by (simp add: gate_held_def)
  show ?thesis
  proof (cases "spawn_result env")
    case (Inl err)
    from doStart_spawn_fails [OF a Inl o, of w] assms(3)
    have "w' = w"
      "m' = (wire_stdio m)\<lparr>cmd := (cmd (wire_stdio m))\<lparr>cmd_Stdout := True\<rparr>, closechan := Closed\<rparr>"
      by simp_all
    moreover from assms(2) a(1) have "monitor w = NotStarted"
      by (auto simp: wired_def)
    ultimately show ?thesis using gate_held_wire [OF assms(1)] by (simp add: gate_held_def)
  next
    case (Inr pid)
    from ns have "\<not> fires_early env m w" by (simp add: fires_early_def)
    with doStart_spawned [OF a Inr o, of w] assms(3)
    have r: "await_ready env (spawned env pid m) (spawned_world env m w) = (r, m', w')"
      by simp
    from await_ready_keeps [OF r] await_ready_Stdin [OF r]
    have e: "w' = spawned_world env m w" "toBeClosed m' = toBeClosed (spawned env pid m)"
      "Stdin m' = Stdin (spawned env pid m)"
      by simp_all
    from gate_held_spawned [OF ns, of env pid w] show ?thesis
      unfolding gate_held_def e .
  qed
qed

lemma gate_held_Wait:
  assumes "gate_held m w"
  shows "Wait_returns m w = (Return (), m, w)"
proof (cases "Wait_can_return m w")
  case False
  then show ?thesis by (simp add: Wait_returns_def)
next
  case True
  have "monitor w \<noteq> Waiting"
  proof
    assume "monitor w = Waiting"
    with assms True show False
      by (auto simp: gate_held_def Wait_can_return_def split: stdin_copy.splits)
  qed
  with True show ?thesis by (simp add: Wait_returns_def monitor_fires_idle)
qed

lemma gate_held_step:
  assumes "gate_held m w" and "wired m w" and "quiet e" and "step e m w = (p, m', w')"
  shows "gate_held m' w' \<and> p = None"
proof (cases e)
  case (EvSet i out e lg)
  with assms(3) show ?thesis by simp
next
  case (EvStart env)
  obtain r m1 w1 where d: "MLab_doStart env m w = (r, m1, w1)"
    by (cases "MLab_doStart env m w")
  from Start_doStart [of env m w] d assms(4) EvStart
  have "m' = m1" "w' = w1" "p = panic_of r"
    by (auto split: prod.splits)
  with gate_held_doStart [OF assms(1,2) d] wired_doStart [OF assms(2) d] show ?thesis by auto
next
  case EvExit
  with assms(4) have "p = None" "m' = m" "monitor w' = monitor w" "stdin_copy w' = stdin_copy w"
    by (auto split: if_splits)
  with assms(1) show ?thesis by (simp add: gate_held_def)
next
  case EvStdinDone
  with assms(4) have "p = None" "m' = m" "monitor w' = monitor w" "stdin_copy w' = stdin_copy w"
    by auto
  with assms(1) show ?thesis by (simp add: gate_held_def)
next
  case EvWait
  with assms(4) gate_held_Wait [OF assms(1)] have "p = None" "m' = m" "w' = w" by simp_all
  with assms(1) show ?thesis by simp
next
  case EvClose
  with assms(3) show ?thesis by simp
qed

lemma gate_held_run:
  assumes "gate_held m w" and "wired m w" and "list_all quiet evs" and "run evs m w = (p, m', w')"
  shows "gate_held m' w' \<and> wired m' w' \<and> p = None"
  using assms
proof (induction evs arbitrary: m w)
  case Nil
  then show ?case by simp
next
  case (Cons e evs)
  obtain q m1 w1 where s: "step e m w = (q, m1, w1)"
    by (cases "step e m w")
  from Cons.prems(3) have qe: "quiet e" and qs: "list_all quiet evs" by simp_all
  from gate_held_step [OF Cons.prems(1,2) qe s] have g: "gate_held m1 w1" and n: "q = None"
    by simp_all
  from wired_step [OF Cons.prems(2) s] have w: "wired m1 w1" by simp
  from s n Cons.prems(4) have "run evs m1 w1 = (p, m', w')" by simp
  from Cons.IH [OF g w qs this] show ?case .
qed

text \<open>
  So on a handle that \<open>New\<close> returned, as long as nobody assigns \<open>Stdin\<close> or calls \<open>Close\<close>,
  the goroutine never gets past \<open>Wait\<close>: once a process has been spawned the signal stays
  pending, also after the process has exited.
\<close>

lemma Wait_held_until_Close:
  assumes "New tb script args tempfile w0 = (Return (Inr lab), w)" and "monitor w0 = NotStarted"
      and "list_all quiet evs" and "run evs lab w = (p, m', w')"
  shows "p = None \<and> monitor w' \<noteq> Done \<and> (monitor w' = Waiting \<longrightarrow> \<not> MLab_IsClosed m')"
proof -
  from wired_New [OF assms(1,2)] have wl: "wired lab w" by simp
  from assms(1,2) have gl: "gate_held lab w"
    by (auto simp: New_def gate_held_def split: sum.splits if_splits)
  from gate_held_run [OF gl wl assms(3,4)]
  have g: "gate_held m' w'" and w: "wired m' w'" and n: "p = None" by simp_all
  from g have "monitor w' \<noteq> Done" by (simp add: gate_held_def)
  moreover from w have "monitor w' = Waiting \<longrightarrow> \<not> MLab_IsClosed m'"
    by (auto simp: wired_def IsClosed_iff)
  ultimately show ?thesis using n by simp
qed

text \<open>
  Claim C8: the completion signal fires at most once, it fires whenever the process has
  exited or the spawn failed, and \<open>IsClosed\<close> is true if and only if it has fired; the
  comment of the field \<open>closechan\<close> says the same (``will be closed once the lab process
  is dead''). The code does not do the second part. On the handle that \<open>New\<close> returns,
  \<open>Start\<close> succeeds; then the process exits and the goroutine gets its turn, but \<open>Wait\<close>
  is held by the blocking reader: the process is dead and \<open>IsClosed\<close> is false. The signal
  fires only after \<open>Close\<close> has closed the reader. In the same way a process that is dead
  before the timer of \<open>doStart\<close> fires goes unnoticed, and \<open>doStart\<close> returns no error.
\<close>

theorem closechan_pending_after_exit:
  "New False ''test.mlab'' [] (Inr ''/tmp/tmlab.1'') ex_world =
     (Return (Inr ex_new_lab), ex_new_world) \<and>
   run [EvStart ex_env, EvExit, EvWait] ex_new_lab ex_new_world =
     (None, ex_lab, ex_started_world\<lparr>exited := True\<rparr>) \<and>
   exited (ex_started_world\<lparr>exited := True\<rparr>) \<and>
   \<not> MLab_IsClosed ex_lab \<and>
   fst (run [EvStart ex_env, EvExit, EvWait, EvClose] ex_new_lab ex_new_world) = None \<and>
   \<not> MLab_IsClosed (fst (snd (run [EvStart ex_env, EvExit, EvWait, EvClose] ex_new_lab ex_new_world))) \<and>
   MLab_IsClosed (fst (snd (run [EvStart ex_env, EvExit, EvWait, EvClose, EvWait] ex_new_lab ex_new_world))) \<and>
   MLab_doStart (ex_env\<lparr>exits_early := True\<rparr>) ex_new_lab ex_new_world =
     (Return None, ex_lab, ex_started_world\<lparr>exited := True\<rparr>)"
proof -
  have s: "MLab_Start ex_env ex_new_lab ex_new_world = (Return None, ex_lab, ex_started_world)"
    by (simp add: MLab_Start_def ex_doStart)
  have g: "\<not> Wait_can_return ex_lab (ex_started_world\<lparr>exited := True\<rparr>)"
    by (simp add: Wait_can_return_def ex_lab_def ex_started_world_def newBlockingReader_def)
  have st1: "step (EvStart ex_env) ex_new_lab ex_new_world = (None, ex_lab, ex_started_world)"
    by (simp add: s)
  have st2: "step EvExit ex_lab ex_started_world = (None, ex_lab, ex_started_world\<lparr>exited := True\<rparr>)"
    by (simp add: ex_lab_def)
  have st3: "step EvWait ex_lab (ex_started_world\<lparr>exited := True\<rparr>) =
      (None, ex_lab, ex_started_world\<lparr>exited := True\<rparr>)"
    using g by (simp add: Wait_returns_def)
  have r: "run [EvStart ex_env, EvExit, EvWait] ex_new_lab ex_new_world =
     (None, ex_lab, ex_started_world\<lparr>exited := True\<rparr>)"
    by (simp only: run.simps st1 st2 st3 prod.case option.case)
  have c: "MLab_Close ex_lab (ex_started_world\<lparr>exited := True\<rparr>) =
     (Return None, ex_lab\<lparr>toBeClosed := [\<lparr>br_once = True, br_c = Closed\<rparr>]\<rparr>,
      ex_started_world\<lparr>exited := True, kills := 1, files := Map.empty\<rparr>)"
    by (simp add: MLab_Close_def MLab_Log_def MLab_IsClosed_def Process_Kill_def ex_lab_def
        ex_started_world_def ex_world_def newBlockingReader_def blockingReader_Close_def
        os_Remove_def close_chan_def Let_def)
  have st4: "step EvClose ex_lab (ex_started_world\<lparr>exited := True\<rparr>) =
     (None, ex_lab\<lparr>toBeClosed := [\<lparr>br_once = True, br_c = Closed\<rparr>]\<rparr>,
      ex_started_world\<lparr>exited := True, kills := 1, files := Map.empty\<rparr>)"
    by (simp add: c)
  have r4: "run [EvStart ex_env, EvExit, EvWait, EvClose] ex_new_lab ex_new_world =
     (None, ex_lab\<lparr>toBeClosed := [\<lparr>br_once = True, br_c = Closed\<rparr>]\<rparr>,
      ex_started_world\<lparr>exited := True, kills := 1, files := Map.empty\<rparr>)"
    by (simp only: run.simps st1 st2 st3 st4 prod.case option.case)
  have f: "Wait_returns (ex_lab\<lparr>toBeClosed := [\<lparr>br_once = True, br_c = Closed\<rparr>]\<rparr>)
      (ex_started_world\<lparr>exited := True, kills := 1, files := Map.empty\<rparr>) =
     (Return (), ex_lab\<lparr>toBeClosed := [\<lparr>br_once = True, br_c = Closed\<rparr>], closechan := Closed\<rparr>,
      ex_started_world\<lparr>exited := True, kills := 1, files := Map.empty, monitor := Done\<rparr>)"
    by (simp add: Wait_returns_def Wait_can_return_def monitor_fires_def close_chan_def
        ex_lab_def ex_started_world_def ex_world_def)
  have st5: "step EvWait (ex_lab\<lparr>toBeClosed := [\<lparr>br_once = True, br_c = Closed\<rparr>]\<rparr>)
      (ex_started_world\<lparr>exited := True, kills := 1, files := Map.empty\<rparr>) =
     (None, ex_lab\<lparr>toBeClosed := [\<lparr>br_once = True, br_c = Closed\<rparr>], closechan := Closed\<rparr>,
      ex_started_world\<lparr>exited := True, kills := 1, files := Map.empty, monitor := Done\<rparr>)"
    using f by simp
  have r5: "run [EvStart ex_env, EvExit, EvWait, EvClose, EvWait] ex_new_lab ex_new_world =
     (None, ex_lab\<lparr>toBeClosed := [\<lparr>br_once = True, br_c = Closed\<rparr>], closechan := Closed\<rparr>,
      ex_started_world\<lparr>exited := True, kills := 1, files := Map.empty, monitor := Done\<rparr>)"
    by (simp only: run.simps st1 st2 st3 st4 st5 prod.case option.case)
  have a: "\<not> cmd_Stdout (cmd ex_new_lab)" "Process (cmd ex_new_lab) = None"
    "pipe_result (ex_env\<lparr>exits_early := True\<rparr>) = None"
    "spawn_result (ex_env\<lparr>exits_early := True\<rparr>) = Inr 4242" "closechan ex_new_lab = Open"
    by (simp_all add: ex_new_lab_def ex_env_def)
  have e: "\<not> fires_early (ex_env\<lparr>exits_early := True\<rparr>) ex_new_lab ex_new_world"
    by (simp add: fires_early_def ex_new_lab_def)
  have sp: "spawned (ex_env\<lparr>exits_early := True\<rparr>) 4242 ex_new_lab = ex_lab\<lparr>lab_id := []\<rparr>"
    by (simp add: spawned_def ex_wire) (simp add: ex_new_lab_def ex_lab_def)
  have sw: "spawned_world (ex_env\<lparr>exits_early := True\<rparr>) ex_new_lab ex_new_world =
      ex_started_world\<lparr>exited := True\<rparr>"
    by (simp add: spawned_world_def ex_env_def ex_new_world_def ex_started_world_def
        ex_new_lab_def ex_world_def)
  have d: "MLab_doStart (ex_env\<lparr>exits_early := True\<rparr>) ex_new_lab ex_new_world =
     (Return None, ex_lab, ex_started_world\<lparr>exited := True\<rparr>)"
    using doStart_spawned [OF a, of ex_new_world] e
    by (simp add: sp sw)
      (simp add: await_ready_def ex_env_def ex_lab_def ex_started_world_def ex_world_def
        MLab_IsClosed_def ex_TrimSpace [simplified])
  have i: "\<not> MLab_IsClosed ex_lab"
    by (simp add: MLab_IsClosed_def ex_lab_def)
  have x: "exited (ex_started_world\<lparr>exited := True\<rparr>)"
    by simp
  show ?thesis
    unfolding r r4 r5 d
    using i x by (simp add: ex_New MLab_IsClosed_def ex_lab_def)
qed

end
